theory Spec2Isabelle
  imports Complex_Main
begin

section \<open>Data model of the product synchronisation service\<close>

text \<open>
  Embedding of \<^verbatim>\<open>services/pruduct_sync_service.py\<close> (class \<^verbatim>\<open>ProductSyncService\<close>).

  Timestamps (\<^verbatim>\<open>datetime\<close>) are integers counting microseconds, so that
  \<^verbatim>\<open>timedelta(hours=24)\<close> is \<open>86400000000\<close>. Prices are rationals: every finite float
  denotes one, and on finite floats Python's \<^verbatim>\<open>!=\<close> is inequality of the denoted
  numbers; NaN is not modelled. The arithmetic of a price conversion, with whatever
  rounding it performs, belongs to the converter, which is a parameter below.
  A Python attribute that may be \<^verbatim>\<open>None\<close> is an \<open>option\<close>. For \<^verbatim>\<open>updated_at\<close> the
  source asks \<^verbatim>\<open>hasattr\<close> before it reads the value, so three cases are kept apart:
  the object has no such attribute (\<open>Missing\<close>), the attribute holds \<^verbatim>\<open>None\<close>
  (\<open>Holds None\<close>), or it holds a timestamp (\<open>Holds (Some t)\<close>). Identifiers are
  strings; \<open>ms_fields\<close> and \<open>sh_fields\<close> stand for the remaining fields of a product,
  which this module never reads.
\<close>

type_synonym time = int

datatype attribute = Missing | Holds "time option"

record moysklad_product =
  ms_id :: string
  ms_code :: "string option"
  ms_price :: "rat option"
  ms_stock :: "int option"
  ms_updated_at :: attribute
  ms_fields :: string

record shopify_product =
  sh_id :: string
  sh_sku :: "string option"
  sh_price :: "rat option"
  sh_variant_id :: string
  sh_inventory_item_id :: string
  sh_inventory_quantity :: "int option"
  sh_updated_at :: attribute
  sh_fields :: string

text \<open>Exceptions (instances of \<^verbatim>\<open>Exception\<close>) are values. \<open>RetryError\<close> is what tenacity
  raises once the attempts are used up (the decorators do not set \<^verbatim>\<open>reraise\<close>); it wraps
  the last attempt's exception.\<close>

datatype error =
    MoyskladError string
  | ShopifyError string
  | OtherException string
  | RetryError error

text \<open>Everything the service does to the outside world is recorded in a trace: the calls
  on the two platform services, and the sleeps (in milliseconds).\<close>

datatype remote_call =
    MoyskladGetAllProducts bool "time option"
  | ShopifyGetAllProducts bool "time option"
  | ShopifyCreateProduct shopify_product
  | ShopifyUpdateProduct shopify_product
  | MoyskladCreateProduct moysklad_product
  | MoyskladUpdateProduct moysklad_product
  | ShopifyUpdateInventory string string int
  | ShopifyUpdatePrice string string rat
  | MoyskladUpdatePrice string rat

datatype event = Remote remote_call | Sleep nat

fun remote_calls :: "event list \<Rightarrow> remote_call list" where
  "remote_calls [] = []"
| "remote_calls (Remote c # evs) = c # remote_calls evs"
| "remote_calls (Sleep d # evs) = remote_calls evs"

text \<open>
  The two service objects (\<^verbatim>\<open>ShopifyService\<close>, \<^verbatim>\<open>MoyskladService\<close>), the converters of
  \<^verbatim>\<open>utils.converters\<close> and the configuration are defined outside this module; they are
  parameters of the model, and the converters are taken to be pure. A service call
  answers from the trace so far and its arguments, so any deterministic behaviour of the
  platforms (failing twice, then succeeding, say) is an instance. Keyword arguments a
  call site leaves out are \<open>False\<close> and \<open>None\<close>. \<open>clock\<close> gives the \<open>n\<close>-th reading of
  \<^verbatim>\<open>datetime.now()\<close>.
\<close>

record env =
  clock :: "nat \<Rightarrow> time"
  price_sync_direction :: string
  moysklad_to_shopify_product :: "moysklad_product \<Rightarrow> shopify_product"
  shopify_to_moysklad_product :: "shopify_product \<Rightarrow> moysklad_product"
  price_to_moysklad_format :: "rat \<Rightarrow> rat"
  moysklad_get_all_products ::
    "event list \<Rightarrow> bool \<Rightarrow> time option \<Rightarrow> error + moysklad_product list"
  shopify_get_all_products ::
    "event list \<Rightarrow> bool \<Rightarrow> time option \<Rightarrow> error + shopify_product list"
  shopify_create_product :: "event list \<Rightarrow> shopify_product \<Rightarrow> error + shopify_product"
  shopify_update_product :: "event list \<Rightarrow> shopify_product \<Rightarrow> error + shopify_product"
  moysklad_create_product :: "event list \<Rightarrow> moysklad_product \<Rightarrow> error + moysklad_product"
  moysklad_update_product :: "event list \<Rightarrow> moysklad_product \<Rightarrow> error + moysklad_product"
  shopify_update_inventory :: "event list \<Rightarrow> string \<Rightarrow> string \<Rightarrow> int \<Rightarrow> error + unit"
  shopify_update_price :: "event list \<Rightarrow> string \<Rightarrow> string \<Rightarrow> rat \<Rightarrow> error + unit"
  moysklad_update_price :: "event list \<Rightarrow> string \<Rightarrow> rat \<Rightarrow> error + unit"

text \<open>A coroutine handed to the scheduler: run on a trace, it returns or raises, and
  extends the trace.\<close>

type_synonym 'a task = "event list \<Rightarrow> (error + 'a) \<times> event list"

definition BATCH_SIZE :: nat where
  "BATCH_SIZE = 50"

definition MAX_CONCURRENT_TASKS :: nat where
  "MAX_CONCURRENT_TASKS = 5"

section \<open>The retry decorator\<close>

text \<open>
  \<^verbatim>\<open>@retry(stop=stop_after_attempt(3), wait=wait_fixed(2))\<close>: the decorated coroutine is
  called; when it raises and the attempt number has reached 3, \<^verbatim>\<open>RetryError\<close> is raised;
  otherwise the decorator sleeps 2 seconds and calls again. Attempts count from 1.
\<close>

definition stop_after_attempt :: nat where
  "stop_after_attempt = 3"

definition wait_fixed :: nat where
  "wait_fixed = 2000"

function retry :: "nat \<Rightarrow> 'a task \<Rightarrow> 'a task" where
  "retry attempt_number f tr =
     (case f tr of
        (Inr v, tr1) \<Rightarrow> (Inr v, tr1)
      | (Inl e, tr1) \<Rightarrow>
          if stop_after_attempt \<le> attempt_number then (Inl (RetryError e), tr1)
          else retry (Suc attempt_number) f (tr1 @ [Sleep wait_fixed]))"
  by pat_completeness auto
termination
  by (relation "measure (\<lambda>(n, f, tr). stop_after_attempt - n)") auto

declare retry.simps [simp del]

section \<open>The wrapped remote mutations\<close>

text \<open>
  Each mutation is one attempt (the decorated body) under \<open>retry\<close>. The body's
  \<^verbatim>\<open>except Exception: logger.error(...); raise\<close> re-raises the same exception; the
  per-mutation log lines are left out, no property here depends on them.
\<close>

definition create_shopify_product_attempt :: "env \<Rightarrow> moysklad_product \<Rightarrow> shopify_product task" where
  "create_shopify_product_attempt env ms_product tr =
     (let shopify_product_data = moysklad_to_shopify_product env ms_product
      in (shopify_create_product env tr shopify_product_data,
          tr @ [Remote (ShopifyCreateProduct shopify_product_data)]))"

definition create_shopify_product :: "env \<Rightarrow> moysklad_product \<Rightarrow> shopify_product task" where
  "create_shopify_product env ms_product = retry 1 (create_shopify_product_attempt env ms_product)"

text \<open>
  \<^verbatim>\<open>hasattr(a, 'updated_at') and hasattr(b, 'updated_at')\<close>, then
  \<^verbatim>\<open>a.updated_at <= b.updated_at\<close>. \<^verbatim>\<open>hasattr\<close> is true for an attribute that holds
  \<^verbatim>\<open>None\<close>, and \<^verbatim>\<open><=\<close> with \<^verbatim>\<open>None\<close> on either side raises \<^verbatim>\<open>TypeError\<close>. The
  comparison stands inside the \<^verbatim>\<open>try\<close> block of the attempt, so the exception is
  re-raised to the retry decorator.
\<close>

definition no_changes_detected :: "attribute \<Rightarrow> attribute \<Rightarrow> error + bool" where
  "no_changes_detected source_updated_at target_updated_at =
     (case source_updated_at of
        Missing \<Rightarrow> Inr False
      | Holds s \<Rightarrow>
          (case target_updated_at of
             Missing \<Rightarrow> Inr False
           | Holds t \<Rightarrow>
               (case s of
                  None \<Rightarrow> Inl (OtherException ''TypeError'')
                | Some a \<Rightarrow>
                    (case t of
                       None \<Rightarrow> Inl (OtherException ''TypeError'')
                     | Some b \<Rightarrow> Inr (a \<le> b)))))"

definition update_shopify_product_attempt ::
  "env \<Rightarrow> moysklad_product \<Rightarrow> shopify_product \<Rightarrow> shopify_product task" where
  "update_shopify_product_attempt env ms_product shopify_product tr =
     (case no_changes_detected (ms_updated_at ms_product) (sh_updated_at shopify_product) of
        Inl e \<Rightarrow> (Inl e, tr)
      | Inr no_changes \<Rightarrow>
          if no_changes then (Inr shopify_product, tr)
          else
            (let updated_data =
                   (moysklad_to_shopify_product env ms_product)\<lparr>sh_id := sh_id shopify_product\<rparr>
             in (shopify_update_product env tr updated_data,
                 tr @ [Remote (ShopifyUpdateProduct updated_data)])))"

definition update_shopify_product ::
  "env \<Rightarrow> moysklad_product \<Rightarrow> shopify_product \<Rightarrow> shopify_product task" where
  "update_shopify_product env ms_product shopify_product =
     retry 1 (update_shopify_product_attempt env ms_product shopify_product)"

definition create_moysklad_product_attempt :: "env \<Rightarrow> shopify_product \<Rightarrow> moysklad_product task" where
  "create_moysklad_product_attempt env shopify_product tr =
     (let moysklad_product_data = shopify_to_moysklad_product env shopify_product
      in (moysklad_create_product env tr moysklad_product_data,
          tr @ [Remote (MoyskladCreateProduct moysklad_product_data)]))"

definition create_moysklad_product :: "env \<Rightarrow> shopify_product \<Rightarrow> moysklad_product task" where
  "create_moysklad_product env shopify_product =
     retry 1 (create_moysklad_product_attempt env shopify_product)"

definition update_moysklad_product_attempt ::
  "env \<Rightarrow> shopify_product \<Rightarrow> moysklad_product \<Rightarrow> moysklad_product task" where
  "update_moysklad_product_attempt env shopify_product moysklad_product tr =
     (case no_changes_detected (sh_updated_at shopify_product) (ms_updated_at moysklad_product) of
        Inl e \<Rightarrow> (Inl e, tr)
      | Inr no_changes \<Rightarrow>
          if no_changes then (Inr moysklad_product, tr)
          else
            (let updated_data =
                   (shopify_to_moysklad_product env shopify_product)
                     \<lparr>ms_id := ms_id moysklad_product\<rparr>
             in (moysklad_update_product env tr updated_data,
                 tr @ [Remote (MoyskladUpdateProduct updated_data)])))"

definition update_moysklad_product ::
  "env \<Rightarrow> shopify_product \<Rightarrow> moysklad_product \<Rightarrow> moysklad_product task" where
  "update_moysklad_product env shopify_product moysklad_product =
     retry 1 (update_moysklad_product_attempt env shopify_product moysklad_product)"

text \<open>\<^verbatim>\<open>getattr(shopify_product, 'inventory_quantity', None)\<close> is the field itself:
  \<open>None\<close> covers both the missing attribute and the value \<^verbatim>\<open>None\<close>.\<close>

definition update_shopify_inventory_attempt ::
  "env \<Rightarrow> moysklad_product \<Rightarrow> shopify_product \<Rightarrow> unit task" where
  "update_shopify_inventory_attempt env ms_product shopify_product tr =
     (let current_stock = sh_inventory_quantity shopify_product;
          moysklad_stock = (case ms_stock ms_product of Some s \<Rightarrow> s | None \<Rightarrow> 0)
      in if current_stock \<noteq> None \<and> current_stock = Some moysklad_stock then (Inr (), tr)
         else (shopify_update_inventory env tr (sh_id shopify_product)
                 (sh_inventory_item_id shopify_product) moysklad_stock,
               tr @ [Remote (ShopifyUpdateInventory (sh_id shopify_product)
                       (sh_inventory_item_id shopify_product) moysklad_stock)]))"

definition update_shopify_inventory ::
  "env \<Rightarrow> moysklad_product \<Rightarrow> shopify_product \<Rightarrow> unit task" where
  "update_shopify_inventory env ms_product shopify_product =
     retry 1 (update_shopify_inventory_attempt env ms_product shopify_product)"

definition update_shopify_price_attempt :: "env \<Rightarrow> string \<Rightarrow> string \<Rightarrow> rat \<Rightarrow> unit task" where
  "update_shopify_price_attempt env product_id variant_id price tr =
     (shopify_update_price env tr product_id variant_id price,
      tr @ [Remote (ShopifyUpdatePrice product_id variant_id price)])"

definition update_shopify_price :: "env \<Rightarrow> string \<Rightarrow> string \<Rightarrow> rat \<Rightarrow> unit task" where
  "update_shopify_price env product_id variant_id price =
     retry 1 (update_shopify_price_attempt env product_id variant_id price)"

definition update_moysklad_price_attempt :: "env \<Rightarrow> string \<Rightarrow> rat \<Rightarrow> unit task" where
  "update_moysklad_price_attempt env product_id price tr =
     (moysklad_update_price env tr product_id price,
      tr @ [Remote (MoyskladUpdatePrice product_id price)])"

definition update_moysklad_price :: "env \<Rightarrow> string \<Rightarrow> rat \<Rightarrow> unit task" where
  "update_moysklad_price env product_id price =
     retry 1 (update_moysklad_price_attempt env product_id price)"

section \<open>The batch scheduler\<close>

text \<open>
  The service object's mutable state: the watermark, the trace of the outside world, the
  warnings and errors written to the logger (info-level lines are left out), and the
  number of clock readings taken.
\<close>

datatype log_entry =
    TaskFailed nat error
  | InvalidPriceSyncDirection string
  | ProductSyncError error
  | InventorySyncError error
  | PriceSyncError error
  | CompleteSyncError error
  | IncrementalSyncError error

record sync_state =
  last_sync_time :: "time option"
  trace :: "event list"
  logged :: "log_entry list"
  clock_reads :: nat

text \<open>
  \<^verbatim>\<open>asyncio.gather\<close> runs its awaitables to completion and returns their outcomes in
  the order of submission. The awaitables of one call run interleaved; the model fixes
  the schedule that runs them one after the other in that order. With
  \<^verbatim>\<open>return_exceptions=True\<close> exceptions are outcomes; otherwise the first one is raised
  (the other awaitables are not cancelled).
\<close>

fun run_all :: "('s \<Rightarrow> (error + 'a) \<times> 's) list \<Rightarrow> 's \<Rightarrow> (error + 'a) list \<times> 's" where
  "run_all [] s = ([], s)"
| "run_all (t # ts) s =
     (case t s of (r, s1) \<Rightarrow> (case run_all ts s1 of (rs, s2) \<Rightarrow> (r # rs, s2)))"

fun first_exception :: "(error + 'a) list \<Rightarrow> error option" where
  "first_exception [] = None"
| "first_exception (Inl e # rs) = Some e"
| "first_exception (Inr v # rs) = first_exception rs"

definition gather ::
  "bool \<Rightarrow> ('s \<Rightarrow> (error + 'a) \<times> 's) list \<Rightarrow> 's \<Rightarrow> (error + (error + 'a) list) \<times> 's" where
  "gather return_exceptions aws s =
     (case run_all aws s of
        (rs, s1) \<Rightarrow>
          if return_exceptions then (Inr rs, s1)
          else (case first_exception rs of Some e \<Rightarrow> (Inl e, s1) | None \<Rightarrow> (Inr rs, s1)))"

text \<open>The inner loop \<^verbatim>\<open>for j, result in enumerate(batch_results)\<close>: an exception is
  logged with its task number \<open>i + j\<close>, any other result is appended.\<close>

fun process_results ::
  "nat \<Rightarrow> nat \<Rightarrow> (error + 'a) list \<Rightarrow> 'a list \<times> log_entry list \<Rightarrow> 'a list \<times> log_entry list" where
  "process_results i j [] acc = acc"
| "process_results i j (Inl e # rs) (results, lg) =
     process_results i (Suc j) rs (results, lg @ [TaskFailed (i + j) e])"
| "process_results i j (Inr v # rs) (results, lg) =
     process_results i (Suc j) rs (results @ [v], lg)"

text \<open>The outer loop \<^verbatim>\<open>for i in range(0, len(tasks), MAX_CONCURRENT_TASKS)\<close> with
  \<^verbatim>\<open>batch = tasks[i:i+MAX_CONCURRENT_TASKS]\<close>.\<close>

function execute_loop ::
  "nat \<Rightarrow> 'a task list \<Rightarrow> 'a list \<Rightarrow> sync_state \<Rightarrow> (error + 'a list) \<times> sync_state" where
  "execute_loop i tasks results st =
     (if i < length tasks then
        (case gather True (take MAX_CONCURRENT_TASKS (drop i tasks)) (trace st) of
           (Inl e, tr1) \<Rightarrow> (Inl e, st\<lparr>trace := tr1\<rparr>)
         | (Inr batch_results, tr1) \<Rightarrow>
             (case process_results i 0 batch_results (results, logged st) of
                (results1, lg1) \<Rightarrow>
                  execute_loop (i + MAX_CONCURRENT_TASKS) tasks results1
                    (st\<lparr>trace := tr1, logged := lg1\<rparr>)))
      else (Inr results, st))"
  by pat_completeness auto
termination
  by (relation "measure (\<lambda>(i, tasks, results, st). length tasks - i)")
     (auto simp: MAX_CONCURRENT_TASKS_def)

declare execute_loop.simps [simp del]

definition execute_tasks_with_limited_concurrency ::
  "'a task list \<Rightarrow> sync_state \<Rightarrow> (error + 'a list) \<times> sync_state" where
  "execute_tasks_with_limited_concurrency tasks st = execute_loop 0 tasks [] st"

section \<open>Catalog indexes and the two directions of product sync\<close>

text \<open>Python truthiness of an identity key: \<^verbatim>\<open>None\<close> and the empty string are false.\<close>

definition truthy :: "string option \<Rightarrow> bool" where
  "truthy key = (key \<noteq> None \<and> key \<noteq> Some [])"

text \<open>\<^verbatim>\<open>{p.code: p for p in products if p.code}\<close>: a later product with the same key
  replaces an earlier one.\<close>

definition index_by :: "('p \<Rightarrow> string option) \<Rightarrow> 'p list \<Rightarrow> (string \<rightharpoonup> 'p)" where
  "index_by key products =
     foldl (\<lambda>m p. case key p of
                     None \<Rightarrow> m
                   | Some k \<Rightarrow> if truthy (Some k) then m(k \<mapsto> p) else m)
           Map.empty products"

text \<open>\<^verbatim>\<open>index.get(key)\<close>; the keys of an index are strings, so \<^verbatim>\<open>None\<close> is never found.\<close>

definition dict_get :: "(string \<rightharpoonup> 'p) \<Rightarrow> string option \<Rightarrow> 'p option" where
  "dict_get index key = (case key of None \<Rightarrow> None | Some k \<Rightarrow> index k)"

definition INTER_BATCH_DELAY :: nat where
  "INTER_BATCH_DELAY = 500"

definition sleep :: "nat \<Rightarrow> sync_state \<Rightarrow> sync_state" where
  "sleep d st = st\<lparr>trace := trace st @ [Sleep d]\<rparr>"

text \<open>The task built for one Moysklad product: update the counterpart found under its
  code, or create.\<close>

definition moysklad_to_shopify_task ::
  "env \<Rightarrow> (string \<rightharpoonup> shopify_product) \<Rightarrow> moysklad_product \<Rightarrow> shopify_product task" where
  "moysklad_to_shopify_task env shopify_by_sku ms_product =
     (case dict_get shopify_by_sku (ms_code ms_product) of
        Some shopify_product \<Rightarrow> update_shopify_product env ms_product shopify_product
      | None \<Rightarrow> create_shopify_product env ms_product)"

function sync_moysklad_to_shopify_loop ::
  "env \<Rightarrow> nat \<Rightarrow> moysklad_product list \<Rightarrow> (string \<rightharpoonup> shopify_product) \<Rightarrow> sync_state
     \<Rightarrow> (error + unit) \<times> sync_state" where
  "sync_moysklad_to_shopify_loop env i valid_products shopify_by_sku st =
     (if i < length valid_products then
        (case execute_tasks_with_limited_concurrency
                (map (moysklad_to_shopify_task env shopify_by_sku)
                     (take BATCH_SIZE (drop i valid_products))) st of
           (Inl e, st1) \<Rightarrow> (Inl e, st1)
         | (Inr results, st1) \<Rightarrow>
             sync_moysklad_to_shopify_loop env (i + BATCH_SIZE) valid_products shopify_by_sku
               (sleep INTER_BATCH_DELAY st1))
      else (Inr (), st))"
  by pat_completeness auto
termination
  by (relation "measure (\<lambda>(env, i, valid_products, idx, st). length valid_products - i)")
     (auto simp: BATCH_SIZE_def)

declare sync_moysklad_to_shopify_loop.simps [simp del]

definition sync_moysklad_to_shopify ::
  "env \<Rightarrow> moysklad_product list \<Rightarrow> (string \<rightharpoonup> shopify_product) \<Rightarrow> sync_state
     \<Rightarrow> (error + unit) \<times> sync_state" where
  "sync_moysklad_to_shopify env moysklad_products shopify_by_sku st =
     sync_moysklad_to_shopify_loop env 0
       (filter (\<lambda>p. truthy (ms_code p)) moysklad_products) shopify_by_sku st"

definition shopify_to_moysklad_task ::
  "env \<Rightarrow> (string \<rightharpoonup> moysklad_product) \<Rightarrow> shopify_product \<Rightarrow> moysklad_product task" where
  "shopify_to_moysklad_task env moysklad_by_code shopify_product =
     (case dict_get moysklad_by_code (sh_sku shopify_product) of
        Some moysklad_product \<Rightarrow> update_moysklad_product env shopify_product moysklad_product
      | None \<Rightarrow> create_moysklad_product env shopify_product)"

function sync_shopify_to_moysklad_loop ::
  "env \<Rightarrow> nat \<Rightarrow> shopify_product list \<Rightarrow> (string \<rightharpoonup> moysklad_product) \<Rightarrow> sync_state
     \<Rightarrow> (error + unit) \<times> sync_state" where
  "sync_shopify_to_moysklad_loop env i valid_products moysklad_by_code st =
     (if i < length valid_products then
        (case execute_tasks_with_limited_concurrency
                (map (shopify_to_moysklad_task env moysklad_by_code)
                     (take BATCH_SIZE (drop i valid_products))) st of
           (Inl e, st1) \<Rightarrow> (Inl e, st1)
         | (Inr results, st1) \<Rightarrow>
             sync_shopify_to_moysklad_loop env (i + BATCH_SIZE) valid_products moysklad_by_code
               (sleep INTER_BATCH_DELAY st1))
      else (Inr (), st))"
  by pat_completeness auto
termination
  by (relation "measure (\<lambda>(env, i, valid_products, idx, st). length valid_products - i)")
     (auto simp: BATCH_SIZE_def)

declare sync_shopify_to_moysklad_loop.simps [simp del]

definition sync_shopify_to_moysklad ::
  "env \<Rightarrow> shopify_product list \<Rightarrow> (string \<rightharpoonup> moysklad_product) \<Rightarrow> sync_state
     \<Rightarrow> (error + unit) \<times> sync_state" where
  "sync_shopify_to_moysklad env shopify_products moysklad_by_code st =
     sync_shopify_to_moysklad_loop env 0
       (filter (\<lambda>p. truthy (sh_sku p)) shopify_products) moysklad_by_code st"

section \<open>The orchestrator\<close>

text \<open>\<open>await m k\<close>: run \<open>m\<close>; an exception leaves the enclosing \<^verbatim>\<open>try\<close> block at once,
  a result is handed to the rest of the block.\<close>

definition await ::
  "('s \<Rightarrow> (error + 'a) \<times> 's) \<Rightarrow> ('a \<Rightarrow> 's \<Rightarrow> (error + 'b) \<times> 's) \<Rightarrow> 's \<Rightarrow> (error + 'b) \<times> 's" where
  "await m k s = (case m s of (Inl e, s1) \<Rightarrow> (Inl e, s1) | (Inr v, s1) \<Rightarrow> k v s1)"

text \<open>\<^verbatim>\<open>except ... as e: logger.error(...); raise\<close> around a \<^verbatim>\<open>try\<close> block.\<close>

definition log_and_reraise ::
  "(error \<Rightarrow> log_entry) \<Rightarrow> (sync_state \<Rightarrow> (error + 'a) \<times> sync_state) \<Rightarrow> sync_state
     \<Rightarrow> (error + 'a) \<times> sync_state" where
  "log_and_reraise entry block st =
     (case block st of
        (Inl e, st1) \<Rightarrow> (Inl e, st1\<lparr>logged := logged st1 @ [entry e]\<rparr>)
      | (Inr v, st1) \<Rightarrow> (Inr v, st1))"

definition now :: "env \<Rightarrow> sync_state \<Rightarrow> time \<times> sync_state" where
  "now env st = (clock env (clock_reads st), st\<lparr>clock_reads := Suc (clock_reads st)\<rparr>)"

definition HOURS_24 :: int where
  "HOURS_24 = 86400000000"

definition moysklad_fetch ::
  "env \<Rightarrow> bool \<Rightarrow> time option \<Rightarrow> sync_state \<Rightarrow> (error + moysklad_product list) \<times> sync_state" where
  "moysklad_fetch env with_stock modified_since st =
     (moysklad_get_all_products env (trace st) with_stock modified_since,
      st\<lparr>trace := trace st @ [Remote (MoyskladGetAllProducts with_stock modified_since)]\<rparr>)"

definition shopify_fetch ::
  "env \<Rightarrow> bool \<Rightarrow> time option \<Rightarrow> sync_state \<Rightarrow> (error + shopify_product list) \<times> sync_state" where
  "shopify_fetch env with_inventory modified_since st =
     (shopify_get_all_products env (trace st) with_inventory modified_since,
      st\<lparr>trace := trace st @ [Remote (ShopifyGetAllProducts with_inventory modified_since)]\<rparr>)"

text \<open>The cutoff of \<^verbatim>\<open>sync_products\<close>: the watermark for an incremental run that has
  one, else the clock's reading less 24 hours for an incremental run, else none.\<close>

definition products_modified_since ::
  "env \<Rightarrow> bool \<Rightarrow> sync_state \<Rightarrow> time option \<times> sync_state" where
  "products_modified_since env full_sync st =
     (if \<not> full_sync \<and> last_sync_time st \<noteq> None then (last_sync_time st, st)
      else if \<not> full_sync then (case now env st of (t, st1) \<Rightarrow> (Some (t - HOURS_24), st1))
      else (None, st))"

text \<open>The cutoff of \<^verbatim>\<open>sync_product_inventory\<close> and \<^verbatim>\<open>sync_product_prices\<close>:
  \<^verbatim>\<open>modified_since = None\<close>, replaced by the watermark for an incremental run that has
  one.\<close>

definition phase_modified_since :: "bool \<Rightarrow> sync_state \<Rightarrow> time option" where
  "phase_modified_since full_sync st =
     (if \<not> full_sync \<and> last_sync_time st \<noteq> None then last_sync_time st else None)"

definition sync_products_try :: "env \<Rightarrow> bool \<Rightarrow> sync_state \<Rightarrow> (error + unit) \<times> sync_state" where
  "sync_products_try env full_sync st0 =
     (case now env st0 of (start_time, st1) \<Rightarrow>
      case products_modified_since env full_sync st1 of (modified_since, st2) \<Rightarrow>
        await (moysklad_fetch env False modified_since) (\<lambda>moysklad_products.
        await (shopify_fetch env False modified_since) (\<lambda>shopify_products.
        await (if \<not> full_sync \<and> modified_since \<noteq> None then
                 await (moysklad_fetch env False None) (\<lambda>all_moysklad_products.
                 await (shopify_fetch env False None) (\<lambda>all_shopify_products st.
                   (Inr (all_moysklad_products, all_shopify_products), st)))
               else (\<lambda>st. (Inr (moysklad_products, shopify_products), st)))
          (\<lambda>(all_moysklad_products, all_shopify_products).
        await (gather False
                 [sync_moysklad_to_shopify env moysklad_products
                    (index_by sh_sku all_shopify_products),
                  sync_shopify_to_moysklad env shopify_products
                    (index_by ms_code all_moysklad_products)])
          (\<lambda>finished st. (Inr (), snd (now env (st\<lparr>last_sync_time := Some start_time\<rparr>))))))) st2)"

definition sync_products :: "env \<Rightarrow> bool \<Rightarrow> sync_state \<Rightarrow> (error + unit) \<times> sync_state" where
  "sync_products env full_sync = log_and_reraise ProductSyncError (sync_products_try env full_sync)"

subsection \<open>Inventory sync\<close>

text \<open>\<^verbatim>\<open>[(p, index.get(p.code)) for p in products if p.code and p.code in index]\<close>.\<close>

definition inventory_valid_products ::
  "moysklad_product list \<Rightarrow> (string \<rightharpoonup> shopify_product)
     \<Rightarrow> (moysklad_product \<times> shopify_product) list" where
  "inventory_valid_products moysklad_products shopify_by_sku =
     List.map_filter
       (\<lambda>ms_product.
          if truthy (ms_code ms_product) then
            (case dict_get shopify_by_sku (ms_code ms_product) of
               None \<Rightarrow> None
             | Some shopify_product \<Rightarrow> Some (ms_product, shopify_product))
          else None)
       moysklad_products"

function sync_product_inventory_loop ::
  "env \<Rightarrow> nat \<Rightarrow> (moysklad_product \<times> shopify_product) list \<Rightarrow> sync_state
     \<Rightarrow> (error + unit) \<times> sync_state" where
  "sync_product_inventory_loop env i valid_products st =
     (if i < length valid_products then
        (case execute_tasks_with_limited_concurrency
                (map (\<lambda>(ms_product, shopify_product).
                        update_shopify_inventory env ms_product shopify_product)
                     (take BATCH_SIZE (drop i valid_products))) st of
           (Inl e, st1) \<Rightarrow> (Inl e, st1)
         | (Inr results, st1) \<Rightarrow>
             sync_product_inventory_loop env (i + BATCH_SIZE) valid_products
               (sleep INTER_BATCH_DELAY st1))
      else (Inr (), st))"
  by pat_completeness auto
termination
  by (relation "measure (\<lambda>(env, i, valid_products, st). length valid_products - i)")
     (auto simp: BATCH_SIZE_def)

declare sync_product_inventory_loop.simps [simp del]

definition sync_product_inventory_try ::
  "env \<Rightarrow> bool \<Rightarrow> sync_state \<Rightarrow> (error + unit) \<times> sync_state" where
  "sync_product_inventory_try env full_sync st0 =
     (case now env st0 of (start_time, st1) \<Rightarrow>
        await (moysklad_fetch env True (phase_modified_since full_sync st1)) (\<lambda>moysklad_products.
        await (shopify_fetch env True None) (\<lambda>shopify_products.
        await (sync_product_inventory_loop env 0
                 (inventory_valid_products moysklad_products (index_by sh_sku shopify_products)))
          (\<lambda>finished st. (Inr (), snd (now env st))))) st1)"

definition sync_product_inventory ::
  "env \<Rightarrow> bool \<Rightarrow> sync_state \<Rightarrow> (error + unit) \<times> sync_state" where
  "sync_product_inventory env full_sync =
     log_and_reraise InventorySyncError (sync_product_inventory_try env full_sync)"

subsection \<open>Price sync\<close>

text \<open>
  The pairs a direction works on: the source product has a key, a price and a
  counterpart under that key. The loops below read the source's price with \<open>the\<close>; every
  pair of these lists has one.
\<close>

definition prices_valid_moysklad ::
  "moysklad_product list \<Rightarrow> (string \<rightharpoonup> shopify_product)
     \<Rightarrow> (moysklad_product \<times> shopify_product) list" where
  "prices_valid_moysklad moysklad_products shopify_by_sku =
     List.map_filter
       (\<lambda>ms_product.
          if truthy (ms_code ms_product) \<and> ms_price ms_product \<noteq> None then
            (case dict_get shopify_by_sku (ms_code ms_product) of
               None \<Rightarrow> None
             | Some shopify_product \<Rightarrow> Some (ms_product, shopify_product))
          else None)
       moysklad_products"

definition prices_valid_shopify ::
  "shopify_product list \<Rightarrow> (string \<rightharpoonup> moysklad_product)
     \<Rightarrow> (shopify_product \<times> moysklad_product) list" where
  "prices_valid_shopify shopify_products moysklad_by_code =
     List.map_filter
       (\<lambda>shopify_product.
          if truthy (sh_sku shopify_product) \<and> sh_price shopify_product \<noteq> None then
            (case dict_get moysklad_by_code (sh_sku shopify_product) of
               None \<Rightarrow> None
             | Some moysklad_product \<Rightarrow> Some (shopify_product, moysklad_product))
          else None)
       shopify_products"

text \<open>The tasks of one batch: \<^verbatim>\<open>if shopify_product.price != ms_product.price:
  tasks.append(...)\<close>.\<close>

fun moysklad_price_tasks ::
  "env \<Rightarrow> (moysklad_product \<times> shopify_product) list \<Rightarrow> unit task list" where
  "moysklad_price_tasks env [] = []"
| "moysklad_price_tasks env ((ms_product, shopify_product) # batch) =
     (if sh_price shopify_product \<noteq> ms_price ms_product
      then update_shopify_price env (sh_id shopify_product) (sh_variant_id shopify_product)
             (the (ms_price ms_product)) # moysklad_price_tasks env batch
      else moysklad_price_tasks env batch)"

fun shopify_price_tasks ::
  "env \<Rightarrow> (shopify_product \<times> moysklad_product) list \<Rightarrow> unit task list" where
  "shopify_price_tasks env [] = []"
| "shopify_price_tasks env ((shopify_product, moysklad_product) # batch) =
     (let moysklad_price = price_to_moysklad_format env (the (sh_price shopify_product))
      in if ms_price moysklad_product \<noteq> Some moysklad_price
         then update_moysklad_price env (ms_id moysklad_product) moysklad_price
                # shopify_price_tasks env batch
         else shopify_price_tasks env batch)"

text \<open>\<^verbatim>\<open>if tasks: await self._execute_tasks_with_limited_concurrency(tasks)\<close>, then the
  pause. \<^verbatim>\<open>range(0, n, batch_size)\<close> raises \<^verbatim>\<open>ValueError\<close> for a step of 0; batch sizes
  are natural numbers here (the only call sites pass \<open>BATCH_SIZE\<close>).\<close>

definition execute_if_any :: "unit task list \<Rightarrow> sync_state \<Rightarrow> (error + unit) \<times> sync_state" where
  "execute_if_any tasks st =
     (if tasks \<noteq> [] then
        (case execute_tasks_with_limited_concurrency tasks st of
           (Inl e, st1) \<Rightarrow> (Inl e, st1)
         | (Inr results, st1) \<Rightarrow> (Inr (), st1))
      else (Inr (), st))"

function sync_prices_moysklad_to_shopify_loop ::
  "env \<Rightarrow> nat \<Rightarrow> (moysklad_product \<times> shopify_product) list \<Rightarrow> nat \<Rightarrow> sync_state
     \<Rightarrow> (error + unit) \<times> sync_state" where
  "sync_prices_moysklad_to_shopify_loop env i valid_products batch_size st =
     (if batch_size = 0 then (Inl (OtherException ''ValueError''), st)
      else if i < length valid_products then
        (case execute_if_any
                (moysklad_price_tasks env (take batch_size (drop i valid_products))) st of
           (Inl e, st1) \<Rightarrow> (Inl e, st1)
         | (Inr u, st1) \<Rightarrow>
             sync_prices_moysklad_to_shopify_loop env (i + batch_size) valid_products batch_size
               (sleep INTER_BATCH_DELAY st1))
      else (Inr (), st))"
  by pat_completeness auto
termination
  by (relation "measure (\<lambda>(env, i, valid_products, b, st). length valid_products - i)") auto

declare sync_prices_moysklad_to_shopify_loop.simps [simp del]

definition sync_prices_moysklad_to_shopify ::
  "env \<Rightarrow> moysklad_product list \<Rightarrow> (string \<rightharpoonup> shopify_product) \<Rightarrow> nat \<Rightarrow> sync_state
     \<Rightarrow> (error + unit) \<times> sync_state" where
  "sync_prices_moysklad_to_shopify env moysklad_products shopify_by_sku batch_size st =
     sync_prices_moysklad_to_shopify_loop env 0
       (prices_valid_moysklad moysklad_products shopify_by_sku) batch_size st"

function sync_prices_shopify_to_moysklad_loop ::
  "env \<Rightarrow> nat \<Rightarrow> (shopify_product \<times> moysklad_product) list \<Rightarrow> nat \<Rightarrow> sync_state
     \<Rightarrow> (error + unit) \<times> sync_state" where
  "sync_prices_shopify_to_moysklad_loop env i valid_products batch_size st =
     (if batch_size = 0 then (Inl (OtherException ''ValueError''), st)
      else if i < length valid_products then
        (case execute_if_any
                (shopify_price_tasks env (take batch_size (drop i valid_products))) st of
           (Inl e, st1) \<Rightarrow> (Inl e, st1)
         | (Inr u, st1) \<Rightarrow>
             sync_prices_shopify_to_moysklad_loop env (i + batch_size) valid_products batch_size
               (sleep INTER_BATCH_DELAY st1))
      else (Inr (), st))"
  by pat_completeness auto
termination
  by (relation "measure (\<lambda>(env, i, valid_products, b, st). length valid_products - i)") auto

declare sync_prices_shopify_to_moysklad_loop.simps [simp del]

definition sync_prices_shopify_to_moysklad ::
  "env \<Rightarrow> shopify_product list \<Rightarrow> (string \<rightharpoonup> moysklad_product) \<Rightarrow> nat \<Rightarrow> sync_state
     \<Rightarrow> (error + unit) \<times> sync_state" where
  "sync_prices_shopify_to_moysklad env shopify_products moysklad_by_code batch_size st =
     sync_prices_shopify_to_moysklad_loop env 0
       (prices_valid_shopify shopify_products moysklad_by_code) batch_size st"

definition sync_product_prices_try ::
  "env \<Rightarrow> bool \<Rightarrow> sync_state \<Rightarrow> (error + unit) \<times> sync_state" where
  "sync_product_prices_try env full_sync st0 =
     (case now env st0 of (start_time, st1) \<Rightarrow>
        await (moysklad_fetch env False (phase_modified_since full_sync st1)) (\<lambda>moysklad_products.
        await (shopify_fetch env False (phase_modified_since full_sync st1)) (\<lambda>shopify_products.
        await (if price_sync_direction env = ''moysklad_to_shopify'' then
                 sync_prices_moysklad_to_shopify env moysklad_products
                   (index_by sh_sku shopify_products) BATCH_SIZE
               else if price_sync_direction env = ''shopify_to_moysklad'' then
                 sync_prices_shopify_to_moysklad env shopify_products
                   (index_by ms_code moysklad_products) BATCH_SIZE
               else (\<lambda>st. (Inr (), st\<lparr>logged := logged st @
                                [InvalidPriceSyncDirection (price_sync_direction env)]\<rparr>)))
          (\<lambda>finished st. (Inr (), snd (now env st))))) st1)"

definition sync_product_prices ::
  "env \<Rightarrow> bool \<Rightarrow> sync_state \<Rightarrow> (error + unit) \<times> sync_state" where
  "sync_product_prices env full_sync =
     log_and_reraise PriceSyncError (sync_product_prices_try env full_sync)"

subsection \<open>Complete and incremental runs\<close>

definition run_complete_sync_try :: "env \<Rightarrow> sync_state \<Rightarrow> (error + unit) \<times> sync_state" where
  "run_complete_sync_try env st0 =
     (case now env st0 of (start_time, st1) \<Rightarrow>
        await (sync_products env True) (\<lambda>u1.
        await (sync_product_inventory env True) (\<lambda>u2.
        await (sync_product_prices env True)
          (\<lambda>u3 st. (Inr (), snd (now env st))))) st1)"

definition run_complete_sync :: "env \<Rightarrow> sync_state \<Rightarrow> (error + unit) \<times> sync_state" where
  "run_complete_sync env = log_and_reraise CompleteSyncError (run_complete_sync_try env)"

definition run_incremental_sync_try :: "env \<Rightarrow> sync_state \<Rightarrow> (error + unit) \<times> sync_state" where
  "run_incremental_sync_try env st0 =
     (case now env st0 of (start_time, st1) \<Rightarrow>
        await (sync_products env False) (\<lambda>u1.
        await (sync_product_inventory env False) (\<lambda>u2.
        await (sync_product_prices env False)
          (\<lambda>u3 st. (Inr (), snd (now env st))))) st1)"

definition run_incremental_sync :: "env \<Rightarrow> sync_state \<Rightarrow> (error + unit) \<times> sync_state" where
  "run_incremental_sync env = log_and_reraise IncrementalSyncError (run_incremental_sync_try env)"

text \<open>\<^verbatim>\<open>__init__\<close>: no watermark; nothing has happened yet.\<close>

definition init_state :: sync_state where
  "init_state = \<lparr>last_sync_time = None, trace = [], logged = [], clock_reads = 0\<rparr>"

section \<open>Notions used to state the properties\<close>

text \<open>The results of a list of outcomes that are not exceptions, in order, and the log
  lines of those that are, numbered from \<open>k\<close>.\<close>

fun successes :: "(error + 'a) list \<Rightarrow> 'a list" where
  "successes [] = []"
| "successes (Inl e # rs) = successes rs"
| "successes (Inr v # rs) = v # successes rs"

fun failures :: "nat \<Rightarrow> (error + 'a) list \<Rightarrow> log_entry list" where
  "failures k [] = []"
| "failures k (Inl e # rs) = TaskFailed k e # failures (Suc k) rs"
| "failures k (Inr v # rs) = failures (Suc k) rs"

text \<open>What a retried mutation adds to the trace when every attempt makes the one remote
  call \<open>c\<close>: one, two or three calls, with the fixed wait between them.\<close>

definition attempt_traces :: "remote_call \<Rightarrow> event list set" where
  "attempt_traces c =
     {[Remote c],
      [Remote c, Sleep wait_fixed, Remote c],
      [Remote c, Sleep wait_fixed, Remote c, Sleep wait_fixed, Remote c]}"

text \<open>
  The contract of the retry executor for a mutation whose underlying remote call is
  \<open>c\<close>, answered by \<open>underlying\<close>: at most three attempts with the fixed wait between
  them; two failures and then a success give the success after exactly three calls;
  three failures give a failure after exactly three calls, carrying the last error.
\<close>

definition three_attempts ::
  "(event list \<Rightarrow> error + 'a) \<Rightarrow> remote_call \<Rightarrow> 'a task \<Rightarrow> bool" where
  "three_attempts underlying c mutation =
     (\<forall>tr. let a = Remote c; w = Sleep wait_fixed; r = mutation tr
           in snd r \<in> {tr @ [a], tr @ [a, w, a], tr @ [a, w, a, w, a]}
              \<and> (\<forall>e1 e2 v.
                    underlying tr = Inl e1
                    \<and> underlying (tr @ [a, w]) = Inl e2
                    \<and> underlying (tr @ [a, w, a, w]) = Inr v
                    \<longrightarrow> r = (Inr v, tr @ [a, w, a, w, a]))
              \<and> (\<forall>e1 e2 e3.
                    underlying tr = Inl e1
                    \<and> underlying (tr @ [a, w]) = Inl e2
                    \<and> underlying (tr @ [a, w, a, w]) = Inl e3
                    \<longrightarrow> r = (Inl (RetryError e3), tr @ [a, w, a, w, a])))"

text \<open>A task that, from any trace, makes the remote call \<open>c\<close> one to three times and
  nothing else.\<close>

definition issues :: "remote_call \<Rightarrow> 'a task \<Rightarrow> bool" where
  "issues c t = (\<forall>tr. \<exists>evs. evs \<in> attempt_traces c \<and> snd (t tr) = tr @ evs)"

text \<open>The price updates a direction makes for a list of matched pairs: one for each pair
  on which its comparison finds a difference. From Moysklad to Shopify the two stored
  prices are compared as they are; from Shopify to Moysklad the Shopify price is
  converted first.\<close>

fun moysklad_price_calls :: "(moysklad_product \<times> shopify_product) list \<Rightarrow> remote_call list" where
  "moysklad_price_calls [] = []"
| "moysklad_price_calls ((ms_product, shopify_product) # pairs) =
     (if sh_price shopify_product \<noteq> ms_price ms_product
      then ShopifyUpdatePrice (sh_id shopify_product) (sh_variant_id shopify_product)
             (the (ms_price ms_product)) # moysklad_price_calls pairs
      else moysklad_price_calls pairs)"

fun shopify_price_calls ::
  "env \<Rightarrow> (shopify_product \<times> moysklad_product) list \<Rightarrow> remote_call list" where
  "shopify_price_calls env [] = []"
| "shopify_price_calls env ((shopify_product, moysklad_product) # pairs) =
     (if ms_price moysklad_product \<noteq>
           Some (price_to_moysklad_format env (the (sh_price shopify_product)))
      then MoyskladUpdatePrice (ms_id moysklad_product)
             (price_to_moysklad_format env (the (sh_price shopify_product)))
             # shopify_price_calls env pairs
      else shopify_price_calls env pairs)"

text \<open>A task that makes the remote call \<open>c\<close> (one to three times), or, for \<open>None\<close>,
  makes no remote call at all.\<close>

definition performs :: "remote_call option \<Rightarrow> 'a task \<Rightarrow> bool" where
  "performs c t =
     (case c of
        None \<Rightarrow> (\<forall>tr. \<exists>evs. snd (t tr) = tr @ evs \<and> remote_calls evs = [])
      | Some c' \<Rightarrow> issues c' t)"

text \<open>
  The remote call a record's task makes, per direction: the create when the target index
  has no counterpart; the update, with the counterpart's id on the converted payload,
  when the comparison of the two \<open>updated_at\<close> says the source is newer or cannot be
  made for want of an attribute; none when the comparison says the source is not newer,
  and none when the comparison raises.
\<close>

definition moysklad_to_shopify_call ::
  "env \<Rightarrow> (string \<rightharpoonup> shopify_product) \<Rightarrow> moysklad_product \<Rightarrow> remote_call option" where
  "moysklad_to_shopify_call env shopify_by_sku ms_product =
     (case dict_get shopify_by_sku (ms_code ms_product) of
        None \<Rightarrow> Some (ShopifyCreateProduct (moysklad_to_shopify_product env ms_product))
      | Some target \<Rightarrow>
          if no_changes_detected (ms_updated_at ms_product) (sh_updated_at target) = Inr False
          then Some (ShopifyUpdateProduct
                 ((moysklad_to_shopify_product env ms_product)\<lparr>sh_id := sh_id target\<rparr>))
          else None)"

definition shopify_to_moysklad_call ::
  "env \<Rightarrow> (string \<rightharpoonup> moysklad_product) \<Rightarrow> shopify_product \<Rightarrow> remote_call option" where
  "shopify_to_moysklad_call env moysklad_by_code shopify_product =
     (case dict_get moysklad_by_code (sh_sku shopify_product) of
        None \<Rightarrow> Some (MoyskladCreateProduct (shopify_to_moysklad_product env shopify_product))
      | Some target \<Rightarrow>
          if no_changes_detected (sh_updated_at shopify_product) (ms_updated_at target) = Inr False
          then Some (MoyskladUpdateProduct
                 ((shopify_to_moysklad_product env shopify_product)\<lparr>ms_id := ms_id target\<rparr>))
          else None)"

text \<open>The inventory policy for a matched pair: adjust unless the known quantity is the
  computed stock.\<close>

definition inventory_call :: "moysklad_product \<times> shopify_product \<Rightarrow> remote_call option" where
  "inventory_call pair =
     (case pair of (ms_product, shopify_product) \<Rightarrow>
        if sh_inventory_quantity shopify_product =
             Some (case ms_stock ms_product of Some s \<Rightarrow> s | None \<Rightarrow> 0)
        then None
        else Some (ShopifyUpdateInventory (sh_id shopify_product)
                     (sh_inventory_item_id shopify_product)
                     (case ms_stock ms_product of Some s \<Rightarrow> s | None \<Rightarrow> 0)))"

section \<open>Example platforms\<close>

text \<open>
  Concrete converters, services and products on which the properties below are
  exercised. Moysklad holds prices in minor units and Shopify in major units; the
  example converter multiplies by 100. The example prices, 19.5 and 1950, are binary
  fractions, so the float product \<^verbatim>\<open>19.5 * 100\<close> is exactly 1950 as it is here.
\<close>

definition example_to_shopify :: "moysklad_product \<Rightarrow> shopify_product" where
  "example_to_shopify p =
     \<lparr>sh_id = [], sh_sku = ms_code p, sh_price = map_option (\<lambda>v. v / 100) (ms_price p),
      sh_variant_id = [], sh_inventory_item_id = [], sh_inventory_quantity = ms_stock p,
      sh_updated_at = ms_updated_at p, sh_fields = ms_fields p\<rparr>"

definition example_to_moysklad :: "shopify_product \<Rightarrow> moysklad_product" where
  "example_to_moysklad p =
     \<lparr>ms_id = [], ms_code = sh_sku p, ms_price = map_option (\<lambda>v. v * 100) (sh_price p),
      ms_stock = sh_inventory_quantity p, ms_updated_at = sh_updated_at p,
      ms_fields = sh_fields p\<rparr>"

definition example_env :: env where
  "example_env =
     \<lparr>clock = (\<lambda>n. 1000 + int n),
      price_sync_direction = ''moysklad_to_shopify'',
      moysklad_to_shopify_product = example_to_shopify,
      shopify_to_moysklad_product = example_to_moysklad,
      price_to_moysklad_format = (\<lambda>p. p * 100),
      moysklad_get_all_products = (\<lambda>tr with_stock modified_since. Inr []),
      shopify_get_all_products = (\<lambda>tr with_inventory modified_since. Inr []),
      shopify_create_product = (\<lambda>tr p. Inr (p\<lparr>sh_id := ''gid-1''\<rparr>)),
      shopify_update_product = (\<lambda>tr p. Inr p),
      moysklad_create_product = (\<lambda>tr p. Inr (p\<lparr>ms_id := ''ms-1''\<rparr>)),
      moysklad_update_product = (\<lambda>tr p. Inr p),
      shopify_update_inventory = (\<lambda>tr product_id inventory_item_id quantity. Inr ()),
      shopify_update_price = (\<lambda>tr product_id variant_id price. Inr ()),
      moysklad_update_price = (\<lambda>tr product_id price. Inr ())\<rparr>"

text \<open>A Shopify that rejects the first two calls it receives, and one that rejects all.\<close>

definition flaky_create :: "event list \<Rightarrow> shopify_product \<Rightarrow> error + shopify_product" where
  "flaky_create tr p =
     (if length (remote_calls tr) < 2 then Inl (ShopifyError ''503'')
      else Inr (p\<lparr>sh_id := ''gid-1''\<rparr>))"

definition failing_create :: "event list \<Rightarrow> shopify_product \<Rightarrow> error + shopify_product" where
  "failing_create tr p = Inl (ShopifyError ''503'')"

definition failing_price :: "event list \<Rightarrow> string \<Rightarrow> rat \<Rightarrow> error + unit" where
  "failing_price tr product_id price = Inl (MoyskladError ''502'')"

definition failing_update :: "event list \<Rightarrow> moysklad_product \<Rightarrow> error + moysklad_product" where
  "failing_update tr p = Inl (MoyskladError ''502'')"

definition failing_inventory :: "event list \<Rightarrow> string \<Rightarrow> string \<Rightarrow> int \<Rightarrow> error + unit" where
  "failing_inventory tr product_id inventory_item_id quantity = Inl (ShopifyError ''503'')"

definition failing_shopify_price ::
  "event list \<Rightarrow> string \<Rightarrow> string \<Rightarrow> rat \<Rightarrow> error + unit" where
  "failing_shopify_price tr product_id variant_id price = Inl (ShopifyError ''503'')"

definition failing_fetch ::
  "event list \<Rightarrow> bool \<Rightarrow> time option \<Rightarrow> error + moysklad_product list" where
  "failing_fetch tr with_stock modified_since = Inl (MoyskladError ''timeout'')"

definition example_ms :: moysklad_product where
  "example_ms =
     \<lparr>ms_id = ''ms-7'', ms_code = Some ''X1'', ms_price = Some 1950,
      ms_stock = Some 4, ms_updated_at = Holds (Some 200), ms_fields = ''name=A''\<rparr>"

definition example_sh :: shopify_product where
  "example_sh =
     \<lparr>sh_id = ''gid-9'', sh_sku = Some ''X1'', sh_price = Some (39 / 2),
      sh_variant_id = ''v-9'', sh_inventory_item_id = ''inv-9'',
      sh_inventory_quantity = Some 4, sh_updated_at = Holds (Some 100),
      sh_fields = ''title=C''\<rparr>"

definition always_failing :: "unit task" where
  "always_failing tr = (Inl (OtherException ''boom''), tr)"

definition always_succeeding :: "unit task" where
  "always_succeeding tr = (Inr (), tr)"

section \<open>Properties of the retry decorator\<close>

lemma retry_eq:
  "retry 1 f tr =
     (case f tr of
        (Inr v, t1) \<Rightarrow> (Inr v, t1)
      | (Inl e1, t1) \<Rightarrow>
          (case f (t1 @ [Sleep wait_fixed]) of
             (Inr v, t2) \<Rightarrow> (Inr v, t2)
           | (Inl e2, t2) \<Rightarrow>
               (case f (t2 @ [Sleep wait_fixed]) of
                  (Inr v, t3) \<Rightarrow> (Inr v, t3)
                | (Inl e3, t3) \<Rightarrow> (Inl (RetryError e3), t3))))"
proof -
  have three: "retry 3 f t = (case f t of (Inr v, t3) \<Rightarrow> (Inr v, t3)
                              | (Inl e3, t3) \<Rightarrow> (Inl (RetryError e3), t3))" for t
    by (subst retry.simps) (simp add: stop_after_attempt_def split: prod.splits sum.splits)
  have two: "retry 2 f t = (case f t of (Inr v, t2) \<Rightarrow> (Inr v, t2)
                            | (Inl e2, t2) \<Rightarrow> retry 3 f (t2 @ [Sleep wait_fixed]))" for t
    by (subst retry.simps)
       (simp add: stop_after_attempt_def numeral_3_eq_3 numeral_2_eq_2 split: prod.splits sum.splits)
  have one: "retry 1 f t = (case f t of (Inr v, t1) \<Rightarrow> (Inr v, t1)
                            | (Inl e1, t1) \<Rightarrow> retry 2 f (t1 @ [Sleep wait_fixed]))" for t
    by (subst retry.simps)
       (simp add: stop_after_attempt_def numeral_2_eq_2 split: prod.splits sum.splits)
  show ?thesis
    unfolding one two three by (simp split: prod.splits sum.splits)
qed

lemmas retry_eq' = retry_eq [unfolded One_nat_def]

lemma retry_one_call:
  assumes "\<And>t. f t = (respond t, t @ [Remote c])"
  shows "\<exists>evs. evs \<in> attempt_traces c \<and> snd (retry 1 f tr) = tr @ evs"
  by (simp add: retry_eq' assms attempt_traces_def split: sum.splits)

lemma retry_three_attempts:
  assumes "\<And>t. f t = (underlying t, t @ [Remote c])"
  shows "three_attempts underlying c (retry 1 f)"
  unfolding three_attempts_def
  by (simp add: retry_eq' assms Let_def split: sum.splits)

lemma update_shopify_product_attempt_calls:
  "no_changes_detected (ms_updated_at ms) (sh_updated_at sh) = Inr False \<Longrightarrow>
   update_shopify_product_attempt env ms sh t =
     (shopify_update_product env t ((moysklad_to_shopify_product env ms)\<lparr>sh_id := sh_id sh\<rparr>),
      t @ [Remote (ShopifyUpdateProduct
                     ((moysklad_to_shopify_product env ms)\<lparr>sh_id := sh_id sh\<rparr>))])"
  by (simp add: update_shopify_product_attempt_def Let_def)

lemma update_moysklad_product_attempt_calls:
  "no_changes_detected (sh_updated_at sh) (ms_updated_at ms) = Inr False \<Longrightarrow>
   update_moysklad_product_attempt env sh ms t =
     (moysklad_update_product env t ((shopify_to_moysklad_product env sh)\<lparr>ms_id := ms_id ms\<rparr>),
      t @ [Remote (MoyskladUpdateProduct
                     ((shopify_to_moysklad_product env sh)\<lparr>ms_id := ms_id ms\<rparr>))])"
  by (simp add: update_moysklad_product_attempt_def Let_def)

lemma update_shopify_inventory_attempt_calls:
  "sh_inventory_quantity sh \<noteq> Some (case ms_stock ms of Some s \<Rightarrow> s | None \<Rightarrow> 0) \<Longrightarrow>
   update_shopify_inventory_attempt env ms sh t =
     (shopify_update_inventory env t (sh_id sh) (sh_inventory_item_id sh)
        (case ms_stock ms of Some s \<Rightarrow> s | None \<Rightarrow> 0),
      t @ [Remote (ShopifyUpdateInventory (sh_id sh) (sh_inventory_item_id sh)
                     (case ms_stock ms of Some s \<Rightarrow> s | None \<Rightarrow> 0))])"
  by (simp add: update_shopify_inventory_attempt_def Let_def)

text \<open>
  Claim C6. Each of the seven coroutines under \<open>@retry\<close> keeps the contract
  \<open>three_attempts\<close> for its underlying service call: at most three attempts with the
  fixed wait between two attempts; when the underlying call fails twice and then
  succeeds, the result is the success, after exactly three calls; when it fails three
  times, the result is a failure, after exactly three calls and no fourth, and the
  exception of the last attempt reaches the caller, wrapped in tenacity's \<open>RetryError\<close>.
  For the two product updates and the inventory update the contract is stated for the
  case in which the attempt reaches its service call at all: the comparison of the two
  \<open>updated_at\<close> says the source is newer, and the known quantity is not the computed
  stock. In every case these three add at most three remote calls to the trace.
\<close>

theorem wrapped_mutations_three_attempts:
  "three_attempts
     (\<lambda>t. shopify_create_product env t (moysklad_to_shopify_product env ms_product))
     (ShopifyCreateProduct (moysklad_to_shopify_product env ms_product))
     (create_shopify_product env ms_product)
   \<and> (no_changes_detected (ms_updated_at ms_product) (sh_updated_at shopify_product) = Inr False
        \<longrightarrow> three_attempts
              (\<lambda>t. shopify_update_product env t
                     ((moysklad_to_shopify_product env ms_product)
                        \<lparr>sh_id := sh_id shopify_product\<rparr>))
              (ShopifyUpdateProduct
                 ((moysklad_to_shopify_product env ms_product)\<lparr>sh_id := sh_id shopify_product\<rparr>))
              (update_shopify_product env ms_product shopify_product))
   \<and> three_attempts
       (\<lambda>t. moysklad_create_product env t (shopify_to_moysklad_product env shopify_product))
       (MoyskladCreateProduct (shopify_to_moysklad_product env shopify_product))
       (create_moysklad_product env shopify_product)
   \<and> (no_changes_detected (sh_updated_at shopify_product) (ms_updated_at ms_product) = Inr False
        \<longrightarrow> three_attempts
              (\<lambda>t. moysklad_update_product env t
                     ((shopify_to_moysklad_product env shopify_product)
                        \<lparr>ms_id := ms_id ms_product\<rparr>))
              (MoyskladUpdateProduct
                 ((shopify_to_moysklad_product env shopify_product)\<lparr>ms_id := ms_id ms_product\<rparr>))
              (update_moysklad_product env shopify_product ms_product))
   \<and> (sh_inventory_quantity shopify_product \<noteq>
          Some (case ms_stock ms_product of Some s \<Rightarrow> s | None \<Rightarrow> 0)
        \<longrightarrow> three_attempts
              (\<lambda>t. shopify_update_inventory env t (sh_id shopify_product)
                     (sh_inventory_item_id shopify_product)
                     (case ms_stock ms_product of Some s \<Rightarrow> s | None \<Rightarrow> 0))
              (ShopifyUpdateInventory (sh_id shopify_product)
                 (sh_inventory_item_id shopify_product)
                 (case ms_stock ms_product of Some s \<Rightarrow> s | None \<Rightarrow> 0))
              (update_shopify_inventory env ms_product shopify_product))
   \<and> three_attempts
       (\<lambda>t. shopify_update_price env t product_id variant_id price)
       (ShopifyUpdatePrice product_id variant_id price)
       (update_shopify_price env product_id variant_id price)
   \<and> three_attempts
       (\<lambda>t. moysklad_update_price env t product_id price)
       (MoyskladUpdatePrice product_id price)
       (update_moysklad_price env product_id price)
   \<and> length (remote_calls (drop (length tr)
         (snd (update_shopify_product env ms_product shopify_product tr)))) \<le> 3
   \<and> length (remote_calls (drop (length tr)
         (snd (update_moysklad_product env shopify_product ms_product tr)))) \<le> 3
   \<and> length (remote_calls (drop (length tr)
         (snd (update_shopify_inventory env ms_product shopify_product tr)))) \<le> 3"
proof (intro conjI impI)
  show "length (remote_calls (drop (length tr)
         (snd (update_shopify_product env ms_product shopify_product tr)))) \<le> 3"
    by (simp add: update_shopify_product_def retry_eq' update_shopify_product_attempt_def
          Let_def split: sum.splits)
  show "length (remote_calls (drop (length tr)
         (snd (update_moysklad_product env shopify_product ms_product tr)))) \<le> 3"
    by (simp add: update_moysklad_product_def retry_eq' update_moysklad_product_attempt_def
          Let_def split: sum.splits)
  show "length (remote_calls (drop (length tr)
         (snd (update_shopify_inventory env ms_product shopify_product tr)))) \<le> 3"
    by (simp add: update_shopify_inventory_def retry_eq' update_shopify_inventory_attempt_def
          Let_def split: sum.splits)
  show "three_attempts
     (\<lambda>t. shopify_create_product env t (moysklad_to_shopify_product env ms_product))
     (ShopifyCreateProduct (moysklad_to_shopify_product env ms_product))
     (create_shopify_product env ms_product)"
    unfolding create_shopify_product_def
    by (rule retry_three_attempts) (simp add: create_shopify_product_attempt_def Let_def)
  show "three_attempts
       (\<lambda>t. moysklad_create_product env t (shopify_to_moysklad_product env shopify_product))
       (MoyskladCreateProduct (shopify_to_moysklad_product env shopify_product))
       (create_moysklad_product env shopify_product)"
    unfolding create_moysklad_product_def
    by (rule retry_three_attempts) (simp add: create_moysklad_product_attempt_def Let_def)
  show "three_attempts
       (\<lambda>t. shopify_update_price env t product_id variant_id price)
       (ShopifyUpdatePrice product_id variant_id price)
       (update_shopify_price env product_id variant_id price)"
    unfolding update_shopify_price_def
    by (rule retry_three_attempts) (simp add: update_shopify_price_attempt_def)
  show "three_attempts
       (\<lambda>t. moysklad_update_price env t product_id price)
       (MoyskladUpdatePrice product_id price)
       (update_moysklad_price env product_id price)"
    unfolding update_moysklad_price_def
    by (rule retry_three_attempts) (simp add: update_moysklad_price_attempt_def)
next
  assume "no_changes_detected (ms_updated_at ms_product) (sh_updated_at shopify_product)
            = Inr False"
  then show "three_attempts
              (\<lambda>t. shopify_update_product env t
                     ((moysklad_to_shopify_product env ms_product)
                        \<lparr>sh_id := sh_id shopify_product\<rparr>))
              (ShopifyUpdateProduct
                 ((moysklad_to_shopify_product env ms_product)\<lparr>sh_id := sh_id shopify_product\<rparr>))
              (update_shopify_product env ms_product shopify_product)"
    unfolding update_shopify_product_def
    by (intro retry_three_attempts update_shopify_product_attempt_calls)
next
  assume "no_changes_detected (sh_updated_at shopify_product) (ms_updated_at ms_product)
            = Inr False"
  then show "three_attempts
              (\<lambda>t. moysklad_update_product env t
                     ((shopify_to_moysklad_product env shopify_product)
                        \<lparr>ms_id := ms_id ms_product\<rparr>))
              (MoyskladUpdateProduct
                 ((shopify_to_moysklad_product env shopify_product)\<lparr>ms_id := ms_id ms_product\<rparr>))
              (update_moysklad_product env shopify_product ms_product)"
    unfolding update_moysklad_product_def
    by (intro retry_three_attempts update_moysklad_product_attempt_calls)
next
  assume "sh_inventory_quantity shopify_product \<noteq>
            Some (case ms_stock ms_product of Some s \<Rightarrow> s | None \<Rightarrow> 0)"
  then show "three_attempts
              (\<lambda>t. shopify_update_inventory env t (sh_id shopify_product)
                     (sh_inventory_item_id shopify_product)
                     (case ms_stock ms_product of Some s \<Rightarrow> s | None \<Rightarrow> 0))
              (ShopifyUpdateInventory (sh_id shopify_product)
                 (sh_inventory_item_id shopify_product)
                 (case ms_stock ms_product of Some s \<Rightarrow> s | None \<Rightarrow> 0))
              (update_shopify_inventory env ms_product shopify_product)"
    unfolding update_shopify_inventory_def
    by (intro retry_three_attempts update_shopify_inventory_attempt_calls)
qed

theorem wrapped_mutations_three_attempts_witness:
  "flaky_create [] (example_to_shopify example_ms) = Inl (ShopifyError ''503'')
   \<and> flaky_create [Remote (ShopifyCreateProduct (example_to_shopify example_ms)), Sleep wait_fixed]
        (example_to_shopify example_ms) = Inl (ShopifyError ''503'')
   \<and> flaky_create [Remote (ShopifyCreateProduct (example_to_shopify example_ms)), Sleep wait_fixed,
                    Remote (ShopifyCreateProduct (example_to_shopify example_ms)), Sleep wait_fixed]
        (example_to_shopify example_ms) = Inr ((example_to_shopify example_ms)\<lparr>sh_id := ''gid-1''\<rparr>)
   \<and> create_shopify_product (example_env\<lparr>shopify_create_product := flaky_create\<rparr>) example_ms [] =
     (Inr ((example_to_shopify example_ms)\<lparr>sh_id := ''gid-1''\<rparr>),
      [Remote (ShopifyCreateProduct (example_to_shopify example_ms)), Sleep wait_fixed,
       Remote (ShopifyCreateProduct (example_to_shopify example_ms)), Sleep wait_fixed,
       Remote (ShopifyCreateProduct (example_to_shopify example_ms))])
   \<and> create_shopify_product (example_env\<lparr>shopify_create_product := failing_create\<rparr>) example_ms [] =
     (Inl (RetryError (ShopifyError ''503'')),
      [Remote (ShopifyCreateProduct (example_to_shopify example_ms)), Sleep wait_fixed,
       Remote (ShopifyCreateProduct (example_to_shopify example_ms)), Sleep wait_fixed,
       Remote (ShopifyCreateProduct (example_to_shopify example_ms))])
   \<and> no_changes_detected (ms_updated_at example_ms) (sh_updated_at example_sh) = Inr False
   \<and> update_shopify_product (example_env\<lparr>shopify_update_product := failing_create\<rparr>)
        example_ms example_sh [] =
     (Inl (RetryError (ShopifyError ''503'')),
      [Remote (ShopifyUpdateProduct ((example_to_shopify example_ms)\<lparr>sh_id := ''gid-9''\<rparr>)),
       Sleep wait_fixed,
       Remote (ShopifyUpdateProduct ((example_to_shopify example_ms)\<lparr>sh_id := ''gid-9''\<rparr>)),
       Sleep wait_fixed,
       Remote (ShopifyUpdateProduct ((example_to_shopify example_ms)\<lparr>sh_id := ''gid-9''\<rparr>))])
   \<and> create_moysklad_product (example_env\<lparr>moysklad_create_product := failing_update\<rparr>)
        example_sh [] =
     (Inl (RetryError (MoyskladError ''502'')),
      [Remote (MoyskladCreateProduct (example_to_moysklad example_sh)), Sleep wait_fixed,
       Remote (MoyskladCreateProduct (example_to_moysklad example_sh)), Sleep wait_fixed,
       Remote (MoyskladCreateProduct (example_to_moysklad example_sh))])
   \<and> no_changes_detected (sh_updated_at (example_sh\<lparr>sh_updated_at := Holds (Some 300)\<rparr>))
        (ms_updated_at example_ms) = Inr False
   \<and> update_moysklad_product (example_env\<lparr>moysklad_update_product := failing_update\<rparr>)
        (example_sh\<lparr>sh_updated_at := Holds (Some 300)\<rparr>) example_ms [] =
     (Inl (RetryError (MoyskladError ''502'')),
      [Remote (MoyskladUpdateProduct
                 ((example_to_moysklad (example_sh\<lparr>sh_updated_at := Holds (Some 300)\<rparr>))
                    \<lparr>ms_id := ''ms-7''\<rparr>)),
       Sleep wait_fixed,
       Remote (MoyskladUpdateProduct
                 ((example_to_moysklad (example_sh\<lparr>sh_updated_at := Holds (Some 300)\<rparr>))
                    \<lparr>ms_id := ''ms-7''\<rparr>)),
       Sleep wait_fixed,
       Remote (MoyskladUpdateProduct
                 ((example_to_moysklad (example_sh\<lparr>sh_updated_at := Holds (Some 300)\<rparr>))
                    \<lparr>ms_id := ''ms-7''\<rparr>))])
   \<and> sh_inventory_quantity (example_sh\<lparr>sh_inventory_quantity := Some 7\<rparr>) \<noteq>
       Some (case ms_stock example_ms of Some s \<Rightarrow> s | None \<Rightarrow> 0)
   \<and> update_shopify_inventory (example_env\<lparr>shopify_update_inventory := failing_inventory\<rparr>)
        example_ms (example_sh\<lparr>sh_inventory_quantity := Some 7\<rparr>) [] =
     (Inl (RetryError (ShopifyError ''503'')),
      [Remote (ShopifyUpdateInventory ''gid-9'' ''inv-9'' 4), Sleep wait_fixed,
       Remote (ShopifyUpdateInventory ''gid-9'' ''inv-9'' 4), Sleep wait_fixed,
       Remote (ShopifyUpdateInventory ''gid-9'' ''inv-9'' 4)])
   \<and> update_shopify_price (example_env\<lparr>shopify_update_price := failing_shopify_price\<rparr>)
        ''gid-9'' ''v-9'' (39 / 2) [] =
     (Inl (RetryError (ShopifyError ''503'')),
      [Remote (ShopifyUpdatePrice ''gid-9'' ''v-9'' (39 / 2)), Sleep wait_fixed,
       Remote (ShopifyUpdatePrice ''gid-9'' ''v-9'' (39 / 2)), Sleep wait_fixed,
       Remote (ShopifyUpdatePrice ''gid-9'' ''v-9'' (39 / 2))])
   \<and> update_moysklad_price (example_env\<lparr>moysklad_update_price := failing_price\<rparr>)
        ''ms-7'' 1950 [] =
     (Inl (RetryError (MoyskladError ''502'')),
      [Remote (MoyskladUpdatePrice ''ms-7'' 1950), Sleep wait_fixed,
       Remote (MoyskladUpdatePrice ''ms-7'' 1950), Sleep wait_fixed,
       Remote (MoyskladUpdatePrice ''ms-7'' 1950)])"
  using wrapped_mutations_three_attempts
          [where env = "example_env\<lparr>shopify_create_product := flaky_create\<rparr>"
             and ms_product = example_ms and shopify_product = example_sh]
        wrapped_mutations_three_attempts
          [where env = "example_env\<lparr>shopify_create_product := failing_create\<rparr>"
             and ms_product = example_ms and shopify_product = example_sh]
        wrapped_mutations_three_attempts
          [where env = "example_env\<lparr>shopify_update_product := failing_create\<rparr>"
             and ms_product = example_ms and shopify_product = example_sh]
        wrapped_mutations_three_attempts
          [where env = "example_env\<lparr>moysklad_create_product := failing_update\<rparr>"
             and ms_product = example_ms and shopify_product = example_sh]
        wrapped_mutations_three_attempts
          [where env = "example_env\<lparr>moysklad_update_product := failing_update\<rparr>"
             and ms_product = example_ms
             and shopify_product = "example_sh\<lparr>sh_updated_at := Holds (Some 300)\<rparr>"]
        wrapped_mutations_three_attempts
          [where env = "example_env\<lparr>shopify_update_inventory := failing_inventory\<rparr>"
             and ms_product = example_ms
             and shopify_product = "example_sh\<lparr>sh_inventory_quantity := Some 7\<rparr>"]
        wrapped_mutations_three_attempts
          [where env = "example_env\<lparr>shopify_update_price := failing_shopify_price\<rparr>"
             and product_id = "''gid-9''" and variant_id = "''v-9''" and price = "39 / 2"]
        wrapped_mutations_three_attempts
          [where env = "example_env\<lparr>moysklad_update_price := failing_price\<rparr>"
             and product_id = "''ms-7''" and price = 1950]
  by (simp add: create_shopify_product_def create_shopify_product_attempt_def
        update_shopify_product_def update_shopify_product_attempt_def
        create_moysklad_product_def create_moysklad_product_attempt_def
        update_moysklad_product_def update_moysklad_product_attempt_def
        update_shopify_inventory_def update_shopify_inventory_attempt_def
        update_shopify_price_def update_shopify_price_attempt_def
        update_moysklad_price_def update_moysklad_price_attempt_def retry_eq'
        no_changes_detected_def Let_def example_env_def example_ms_def example_sh_def
        flaky_create_def failing_create_def failing_price_def failing_update_def
        failing_inventory_def failing_shopify_price_def del: not_None_eq)

lemma remote_calls_attempt_traces:
  "evs \<in> attempt_traces c \<Longrightarrow> set (remote_calls evs) = {c}"
  by (auto simp: attempt_traces_def)

lemma remote_calls_append: "remote_calls (xs @ ys) = remote_calls xs @ remote_calls ys"
  by (induction xs rule: remote_calls.induct) auto

section \<open>Properties of the batch scheduler\<close>

lemma successes_append: "successes (xs @ ys) = successes xs @ successes ys"
  by (induction xs rule: successes.induct) auto

lemma failures_append: "failures k (xs @ ys) = failures k xs @ failures (k + length xs) ys"
  by (induction k xs rule: failures.induct) auto

lemma process_results_eq:
  "process_results i j rs (results, lg) = (results @ successes rs, lg @ failures (i + j) rs)"
  by (induction i j rs "(results, lg)" arbitrary: results lg rule: process_results.induct) auto

lemma run_all_append:
  "run_all (xs @ ys) s =
     (fst (run_all xs s) @ fst (run_all ys (snd (run_all xs s))),
      snd (run_all ys (snd (run_all xs s))))"
  by (induction xs arbitrary: s) (auto split: prod.splits)

lemma run_all_Cons:
  "run_all (t # ts) s =
     (fst (t s) # fst (run_all ts (snd (t s))), snd (run_all ts (snd (t s))))"
  by (simp split: prod.splits)

lemma length_run_all: "length (fst (run_all ts s)) = length ts"
  by (induction ts arbitrary: s) (simp_all add: run_all_Cons del: run_all.simps(2))

lemma execute_loop_eq:
  "execute_loop i tasks results st =
     (Inr (results @ successes (fst (run_all (drop i tasks) (trace st)))),
      st\<lparr>trace := snd (run_all (drop i tasks) (trace st)),
         logged := logged st @ failures i (fst (run_all (drop i tasks) (trace st)))\<rparr>)"
proof (induction i tasks results st rule: execute_loop.induct)
  case (1 i tasks results st)
  show ?case
  proof (cases "i < length tasks")
    case False
    then show ?thesis
      by (subst execute_loop.simps) simp
  next
    case True
    define batch where "batch = take MAX_CONCURRENT_TASKS (drop i tasks)"
    define rest where "rest = drop (i + MAX_CONCURRENT_TASKS) tasks"
    define rs1 where "rs1 = fst (run_all batch (trace st))"
    define tr1 where "tr1 = snd (run_all batch (trace st))"
    have split: "drop i tasks = batch @ rest"
      unfolding batch_def rest_def
      by (metis add.commute append_take_drop_id drop_drop)
    have g: "gather True batch (trace st) = (Inr rs1, tr1)"
      by (simp add: gather_def rs1_def tr1_def split: prod.splits)
    have pr: "process_results i 0 rs1 (results, logged st) =
              (results @ successes rs1, logged st @ failures i rs1)"
      by (simp add: process_results_eq)
    have idx: "failures (i + length rs1) (fst (run_all rest tr1)) =
               failures (i + MAX_CONCURRENT_TASKS) (fst (run_all rest tr1))"
    proof (cases "length batch = MAX_CONCURRENT_TASKS")
      case True
      then show ?thesis by (simp add: rs1_def length_run_all)
    next
      case False
      then have "rest = []"
        unfolding batch_def rest_def by (auto simp: min_def add.commute split: if_splits)
      then show ?thesis by simp
    qed
    have IH: "execute_loop (i + MAX_CONCURRENT_TASKS) tasks (results @ successes rs1)
                (st\<lparr>trace := tr1, logged := logged st @ failures i rs1\<rparr>) =
              (Inr ((results @ successes rs1) @ successes (fst (run_all rest tr1))),
               st\<lparr>trace := snd (run_all rest tr1),
                  logged := (logged st @ failures i rs1) @
                            failures (i + MAX_CONCURRENT_TASKS) (fst (run_all rest tr1))\<rparr>)"
      using "1.IH" [OF True g [unfolded batch_def, symmetric] refl pr [symmetric]]
      by (simp add: rest_def)
    show ?thesis
      apply (subst execute_loop.simps)
      apply (simp add: True g [unfolded batch_def] process_results_eq IH)
      apply (simp add: split run_all_append successes_append failures_append idx
                  flip: rs1_def tr1_def)
      done
  qed
qed

lemma execute_tasks_eq:
  "execute_tasks_with_limited_concurrency tasks st =
     (Inr (successes (fst (run_all tasks (trace st)))),
      st\<lparr>trace := snd (run_all tasks (trace st)),
         logged := logged st @ failures 0 (fst (run_all tasks (trace st)))\<rparr>)"
  by (simp add: execute_tasks_with_limited_concurrency_def execute_loop_eq)

lemma length_successes_failures:
  "length (successes rs) + length (failures k rs) = length rs"
  by (induction k rs rule: failures.induct) auto

lemma length_successes: "length (successes rs) = length (filter (\<lambda>r. \<not> isl r) rs)"
  by (induction rs rule: successes.induct) auto

lemma length_failures: "length (failures k rs) = length (filter isl rs)"
  by (induction k rs rule: failures.induct) auto

lemma scheduler_example:
  "execute_tasks_with_limited_concurrency
     [always_succeeding, always_failing, always_succeeding, always_succeeding,
      always_succeeding, always_succeeding, always_failing] init_state =
   (Inr [(), (), (), (), ()],
    init_state\<lparr>logged := [TaskFailed 1 (OtherException ''boom''),
                          TaskFailed 6 (OtherException ''boom'')]\<rparr>)"
  by (simp add: execute_tasks_with_limited_concurrency_def execute_loop.simps gather_def
      MAX_CONCURRENT_TASKS_def always_failing_def always_succeeding_def init_state_def)

text \<open>
  Claim C1. Every task handed to the scheduler is run exactly once, in batches of
  \<open>MAX_CONCURRENT_TASKS\<close>: the trace after the call is the trace of running each task of
  the list once (\<open>run_all\<close>), which yields one outcome per task. The scheduler returns
  the results of the tasks that did not raise and logs one line for each task that did,
  so the results returned and the lines logged number \<open>N\<close> together. A task that raised
  has no entry in the returned list, and the scheduler itself does not raise.
\<close>

theorem scheduler_runs_each_task_once:
  "\<exists>results st'.
      execute_tasks_with_limited_concurrency tasks st = (Inr results, st')
      \<and> trace st' = snd (run_all tasks (trace st))
      \<and> length (fst (run_all tasks (trace st))) = length tasks
      \<and> length results = length (filter (\<lambda>r. \<not> isl r) (fst (run_all tasks (trace st))))
      \<and> length (logged st') =
          length (logged st) + length (filter isl (fst (run_all tasks (trace st))))
      \<and> length results + (length (logged st') - length (logged st)) = length tasks"
  using length_successes_failures [of "fst (run_all tasks (trace st))" 0]
  by (simp add: execute_tasks_eq length_run_all length_successes length_failures)

text \<open>
  Claim C1 asks for exactly \<open>N\<close> returned outcomes, failures included. A single task
  that raises gives an empty list of results: the failure is in the log only.
\<close>

theorem scheduler_drops_failures_counterexample:
  "execute_tasks_with_limited_concurrency [always_failing] init_state =
     (Inr [], init_state\<lparr>logged := [TaskFailed 0 (OtherException ''boom'')]\<rparr>)
   \<and> length ([] :: unit list) \<noteq> length [always_failing]"
  by (simp add: execute_tasks_with_limited_concurrency_def execute_loop.simps gather_def
      MAX_CONCURRENT_TASKS_def always_failing_def init_state_def)

text \<open>
  Claim C10. The scheduler never raises: its result is always the right alternative.
  The list it returns holds the results of the tasks that did not raise, in the order of
  submission, and every exception a task raised is logged as \<open>TaskFailed k e\<close>, where
  \<open>k\<close> is the task's position in the list.
\<close>

theorem scheduler_captures_task_exceptions:
  "fst (execute_tasks_with_limited_concurrency tasks st) =
     Inr (successes (fst (run_all tasks (trace st))))
   \<and> logged (snd (execute_tasks_with_limited_concurrency tasks st)) =
     logged st @ failures 0 (fst (run_all tasks (trace st)))"
  by (simp add: execute_tasks_eq)

subsection \<open>The calls a list of tasks issues\<close>

lemma issuesI:
  assumes "\<And>t. f t = (respond t, t @ [Remote c])"
  shows "issues c (retry 1 f)"
  unfolding issues_def using retry_one_call [of f respond c] assms by blast

lemma run_all_issues:
  "list_all2 issues cs ts \<Longrightarrow>
   \<exists>evs. snd (run_all ts tr) = tr @ evs \<and> set (remote_calls evs) = set cs"
proof (induction cs ts arbitrary: tr rule: list_all2_induct)
  case Nil
  then show ?case by simp
next
  case (Cons c cs t ts)
  from Cons.hyps(1) obtain e1 where e1: "e1 \<in> attempt_traces c" "snd (t tr) = tr @ e1"
    unfolding issues_def by blast
  from Cons.IH [of "tr @ e1"] obtain e2 where
    e2: "snd (run_all ts (tr @ e1)) = (tr @ e1) @ e2" "set (remote_calls e2) = set cs"
    by blast
  have "snd (run_all (t # ts) tr) = tr @ (e1 @ e2)"
    using e1(2) e2(1) by (simp add: run_all_Cons del: run_all.simps)
  moreover have "set (remote_calls (e1 @ e2)) = set (c # cs)"
    using remote_calls_attempt_traces [OF e1(1)] e2(2) by (simp add: remote_calls_append)
  ultimately show ?case by blast
qed

lemma run_all_performs:
  "list_all2 performs cs ts \<Longrightarrow>
   \<exists>evs. snd (run_all ts tr) = tr @ evs \<and> set (remote_calls evs) = {c. Some c \<in> set cs}"
proof (induction cs ts arbitrary: tr rule: list_all2_induct)
  case Nil
  then show ?case by simp
next
  case (Cons c cs t ts)
  obtain e1 where e1: "snd (t tr) = tr @ e1" "set (remote_calls e1) = {x. Some x = c}"
  proof (cases c)
    case None
    then obtain e where "snd (t tr) = tr @ e" "remote_calls e = []"
      using Cons.hyps(1) by (auto simp: performs_def)
    then show ?thesis using that [of e] None by simp
  next
    case (Some c')
    then obtain e where "e \<in> attempt_traces c'" "snd (t tr) = tr @ e"
      using Cons.hyps(1) unfolding performs_def issues_def by auto
    then show ?thesis
      using that [of e] Some remote_calls_attempt_traces [of e c'] by auto
  qed
  from Cons.IH [of "tr @ e1"] obtain e2 where
    e2: "snd (run_all ts (tr @ e1)) = (tr @ e1) @ e2"
        "set (remote_calls e2) = {x. Some x \<in> set cs}"
    by blast
  have "snd (run_all (t # ts) tr) = tr @ (e1 @ e2)"
    using e1(1) e2(1) by (simp add: run_all_Cons del: run_all.simps)
  moreover have "set (remote_calls (e1 @ e2)) = {x. Some x \<in> set (c # cs)}"
    using e1(2) e2(2) by (auto simp: remote_calls_append)
  ultimately show ?case by blast
qed

lemma execute_map_performs:
  assumes "\<And>x. x \<in> set xs \<Longrightarrow> performs (g x) (f x)"
  shows "\<exists>rs st1 evs. execute_tasks_with_limited_concurrency (map f xs) st = (Inr rs, st1)
           \<and> trace st1 = trace st @ evs
           \<and> set (remote_calls evs) = {c. \<exists>x \<in> set xs. g x = Some c}"
proof -
  have "list_all2 performs (map g xs) (map f xs)"
    using assms by (simp add: list_all2_conv_all_nth)
  from run_all_performs [OF this, of "trace st"] obtain evs where
    "snd (run_all (map f xs) (trace st)) = trace st @ evs"
    "set (remote_calls evs) = {c. Some c \<in> set (map g xs)}"
    by blast
  moreover have "{c. Some c \<in> set (map g xs)} = {c. \<exists>x \<in> set xs. g x = Some c}"
    by force
  ultimately show ?thesis
    by (simp add: execute_tasks_eq)
qed

lemma execute_if_any_eq:
  "execute_if_any tasks st =
     (Inr (), st\<lparr>trace := snd (run_all tasks (trace st)),
                 logged := logged st @ failures 0 (fst (run_all tasks (trace st)))\<rparr>)"
  by (cases tasks) (simp_all add: execute_if_any_def execute_tasks_eq)

lemma take_drop_split: "drop i xs = take b (drop i xs) @ drop (i + b) xs"
  by (metis add.commute append_take_drop_id drop_drop)

lemma set_drop_split:
  "set (drop i xs) = set (take b (drop i xs)) \<union> set (drop (i + b) xs)"
  by (metis take_drop_split set_append)

lemma set_map_filter: "set (List.map_filter f xs) = {y. \<exists>x \<in> set xs. f x = Some y}"
  by (induction xs) (auto simp:  split: option.splits)

section \<open>Properties of product reconciliation\<close>

lemma create_shopify_product_trace:
  "\<exists>evs. evs \<in> attempt_traces (ShopifyCreateProduct (moysklad_to_shopify_product env ms))
        \<and> snd (create_shopify_product env ms tr) = tr @ evs"
  unfolding create_shopify_product_def
  by (rule retry_one_call [where respond = "\<lambda>t. shopify_create_product env t
        (moysklad_to_shopify_product env ms)"])
     (simp add: create_shopify_product_attempt_def Let_def)

lemma create_moysklad_product_trace:
  "\<exists>evs. evs \<in> attempt_traces (MoyskladCreateProduct (shopify_to_moysklad_product env sh))
        \<and> snd (create_moysklad_product env sh tr) = tr @ evs"
  unfolding create_moysklad_product_def
  by (rule retry_one_call [where respond = "\<lambda>t. moysklad_create_product env t
        (shopify_to_moysklad_product env sh)"])
     (simp add: create_moysklad_product_attempt_def Let_def)

lemma update_shopify_product_trace:
  "no_changes_detected (ms_updated_at ms) (sh_updated_at sh) = Inr False \<Longrightarrow>
   \<exists>evs. evs \<in> attempt_traces
            (ShopifyUpdateProduct ((moysklad_to_shopify_product env ms)\<lparr>sh_id := sh_id sh\<rparr>))
        \<and> snd (update_shopify_product env ms sh tr) = tr @ evs"
  unfolding update_shopify_product_def
  by (rule retry_one_call [where respond = "\<lambda>t. shopify_update_product env t
        ((moysklad_to_shopify_product env ms)\<lparr>sh_id := sh_id sh\<rparr>)"])
     (rule update_shopify_product_attempt_calls)

lemma update_shopify_product_skip:
  "no_changes_detected (ms_updated_at ms) (sh_updated_at sh) = Inr True \<Longrightarrow>
   update_shopify_product env ms sh tr = (Inr sh, tr)"
  by (simp add: update_shopify_product_def retry_eq' update_shopify_product_attempt_def)

lemma update_shopify_product_raises:
  "no_changes_detected (ms_updated_at ms) (sh_updated_at sh) = Inl e \<Longrightarrow>
   update_shopify_product env ms sh tr =
     (Inl (RetryError e), tr @ [Sleep wait_fixed, Sleep wait_fixed])"
  by (simp add: update_shopify_product_def retry_eq' update_shopify_product_attempt_def)

lemma update_moysklad_product_trace:
  "no_changes_detected (sh_updated_at sh) (ms_updated_at ms) = Inr False \<Longrightarrow>
   \<exists>evs. evs \<in> attempt_traces
            (MoyskladUpdateProduct ((shopify_to_moysklad_product env sh)\<lparr>ms_id := ms_id ms\<rparr>))
        \<and> snd (update_moysklad_product env sh ms tr) = tr @ evs"
  unfolding update_moysklad_product_def
  by (rule retry_one_call [where respond = "\<lambda>t. moysklad_update_product env t
        ((shopify_to_moysklad_product env sh)\<lparr>ms_id := ms_id ms\<rparr>)"])
     (rule update_moysklad_product_attempt_calls)

lemma update_moysklad_product_skip:
  "no_changes_detected (sh_updated_at sh) (ms_updated_at ms) = Inr True \<Longrightarrow>
   update_moysklad_product env sh ms tr = (Inr ms, tr)"
  by (simp add: update_moysklad_product_def retry_eq' update_moysklad_product_attempt_def)

lemma update_moysklad_product_raises:
  "no_changes_detected (sh_updated_at sh) (ms_updated_at ms) = Inl e \<Longrightarrow>
   update_moysklad_product env sh ms tr =
     (Inl (RetryError e), tr @ [Sleep wait_fixed, Sleep wait_fixed])"
  by (simp add: update_moysklad_product_def retry_eq' update_moysklad_product_attempt_def)

text \<open>What the comparison answers: it raises exactly when both objects have the attribute
  and one of them holds \<^verbatim>\<open>None\<close>; it says "no changes" exactly when both hold a
  timestamp and the source's is not later.\<close>

lemma no_changes_detected_raises_iff:
  "(\<exists>e. no_changes_detected s t = Inl e) \<longleftrightarrow>
     (\<exists>a b. s = Holds a \<and> t = Holds b \<and> (a = None \<or> b = None))"
  by (auto simp: no_changes_detected_def split: attribute.splits option.splits)

lemma no_changes_detected_skip_iff:
  "no_changes_detected s t = Inr True \<longleftrightarrow>
     (\<exists>a b. s = Holds (Some a) \<and> t = Holds (Some b) \<and> \<not> b < a)"
  by (auto simp: no_changes_detected_def split: attribute.splits option.splits)

lemma performs_update_shopify_product:
  "performs
     (if no_changes_detected (ms_updated_at ms) (sh_updated_at target) = Inr False
      then Some (ShopifyUpdateProduct
             ((moysklad_to_shopify_product env ms)\<lparr>sh_id := sh_id target\<rparr>))
      else None)
     (update_shopify_product env ms target)"
proof (cases "no_changes_detected (ms_updated_at ms) (sh_updated_at target)")
  case (Inl e)
  have "remote_calls [Sleep wait_fixed, Sleep wait_fixed] = []" by simp
  then show ?thesis
    using update_shopify_product_raises [OF Inl, of env] Inl
    by (auto simp: performs_def)
next
  case (Inr no_changes)
  show ?thesis
  proof (cases no_changes)
    case True
    then show ?thesis
      using update_shopify_product_skip [of ms target env] Inr
      by (simp add: performs_def)
  next
    case False
    then show ?thesis
      using update_shopify_product_trace [of ms target env] Inr
      by (simp add: performs_def issues_def)
  qed
qed

lemma performs_update_moysklad_product:
  "performs
     (if no_changes_detected (sh_updated_at sh) (ms_updated_at target) = Inr False
      then Some (MoyskladUpdateProduct
             ((shopify_to_moysklad_product env sh)\<lparr>ms_id := ms_id target\<rparr>))
      else None)
     (update_moysklad_product env sh target)"
proof (cases "no_changes_detected (sh_updated_at sh) (ms_updated_at target)")
  case (Inl e)
  have "remote_calls [Sleep wait_fixed, Sleep wait_fixed] = []" by simp
  then show ?thesis
    using update_moysklad_product_raises [OF Inl, of env] Inl
    by (auto simp: performs_def)
next
  case (Inr no_changes)
  show ?thesis
  proof (cases no_changes)
    case True
    then show ?thesis
      using update_moysklad_product_skip [of sh target env] Inr
      by (simp add: performs_def)
  next
    case False
    then show ?thesis
      using update_moysklad_product_trace [of sh target env] Inr
      by (simp add: performs_def issues_def)
  qed
qed

lemma performs_moysklad_to_shopify_task:
  "performs (moysklad_to_shopify_call env idx ms) (moysklad_to_shopify_task env idx ms)"
proof (cases "dict_get idx (ms_code ms)")
  case None
  then show ?thesis
    using create_shopify_product_trace [of env ms]
    by (simp add: performs_def moysklad_to_shopify_call_def moysklad_to_shopify_task_def
          issues_def)
next
  case (Some target)
  then show ?thesis
    using performs_update_shopify_product [of ms target env]
    by (simp add: moysklad_to_shopify_call_def moysklad_to_shopify_task_def)
qed

lemma performs_shopify_to_moysklad_task:
  "performs (shopify_to_moysklad_call env idx sh) (shopify_to_moysklad_task env idx sh)"
proof (cases "dict_get idx (sh_sku sh)")
  case None
  then show ?thesis
    using create_moysklad_product_trace [of env sh]
    by (simp add: performs_def shopify_to_moysklad_call_def shopify_to_moysklad_task_def
          issues_def)
next
  case (Some target)
  then show ?thesis
    using performs_update_moysklad_product [of sh target env]
    by (simp add: shopify_to_moysklad_call_def shopify_to_moysklad_task_def)
qed

lemma sync_moysklad_to_shopify_loop_calls:
  "\<exists>evs. trace (snd (sync_moysklad_to_shopify_loop env i valid_products idx st)) =
            trace st @ evs
        \<and> set (remote_calls evs) =
            {c. \<exists>x \<in> set (drop i valid_products). moysklad_to_shopify_call env idx x = Some c}"
proof (induction env i valid_products idx st rule: sync_moysklad_to_shopify_loop.induct)
  case (1 env i valid_products idx st)
  show ?case
  proof (cases "i < length valid_products")
    case False
    then have "sync_moysklad_to_shopify_loop env i valid_products idx st = (Inr (), st)"
      by (subst sync_moysklad_to_shopify_loop.simps) simp
    then show ?thesis using False by simp
  next
    case True
    let ?batch = "take BATCH_SIZE (drop i valid_products)"
    obtain rs st1 e1 where ex:
      "execute_tasks_with_limited_concurrency (map (moysklad_to_shopify_task env idx) ?batch) st
         = (Inr rs, st1)"
      "trace st1 = trace st @ e1"
      "set (remote_calls e1) = {c. \<exists>x \<in> set ?batch. moysklad_to_shopify_call env idx x = Some c}"
      using execute_map_performs [of ?batch "moysklad_to_shopify_call env idx"
              "moysklad_to_shopify_task env idx" st]
            performs_moysklad_to_shopify_task
      by blast
    have step: "sync_moysklad_to_shopify_loop env i valid_products idx st =
                sync_moysklad_to_shopify_loop env (i + BATCH_SIZE) valid_products idx
                  (sleep INTER_BATCH_DELAY st1)"
      by (subst sync_moysklad_to_shopify_loop.simps) (simp add: True ex(1))
    from "1.IH" [OF True ex(1) [symmetric] refl]
    obtain e2 where e2:
      "trace (snd (sync_moysklad_to_shopify_loop env (i + BATCH_SIZE) valid_products idx
              (sleep INTER_BATCH_DELAY st1))) = trace (sleep INTER_BATCH_DELAY st1) @ e2"
      "set (remote_calls e2) =
         {c. \<exists>x \<in> set (drop (i + BATCH_SIZE) valid_products).
               moysklad_to_shopify_call env idx x = Some c}"
      by auto
    have "set (remote_calls (e1 @ [Sleep INTER_BATCH_DELAY] @ e2)) =
          {c. \<exists>x \<in> set (drop i valid_products). moysklad_to_shopify_call env idx x = Some c}"
      unfolding set_drop_split [of i valid_products BATCH_SIZE]
      by (auto simp: remote_calls_append ex(3) e2(2))
    moreover have "trace (snd (sync_moysklad_to_shopify_loop env i valid_products idx st)) =
                   trace st @ (e1 @ [Sleep INTER_BATCH_DELAY] @ e2)"
      unfolding step e2(1) by (simp add: sleep_def ex(2))
    ultimately show ?thesis by metis
  qed
qed

lemma sync_shopify_to_moysklad_loop_calls:
  "\<exists>evs. trace (snd (sync_shopify_to_moysklad_loop env i valid_products idx st)) =
            trace st @ evs
        \<and> set (remote_calls evs) =
            {c. \<exists>x \<in> set (drop i valid_products). shopify_to_moysklad_call env idx x = Some c}"
proof (induction env i valid_products idx st rule: sync_shopify_to_moysklad_loop.induct)
  case (1 env i valid_products idx st)
  show ?case
  proof (cases "i < length valid_products")
    case False
    then have "sync_shopify_to_moysklad_loop env i valid_products idx st = (Inr (), st)"
      by (subst sync_shopify_to_moysklad_loop.simps) simp
    then show ?thesis using False by simp
  next
    case True
    let ?batch = "take BATCH_SIZE (drop i valid_products)"
    obtain rs st1 e1 where ex:
      "execute_tasks_with_limited_concurrency (map (shopify_to_moysklad_task env idx) ?batch) st
         = (Inr rs, st1)"
      "trace st1 = trace st @ e1"
      "set (remote_calls e1) = {c. \<exists>x \<in> set ?batch. shopify_to_moysklad_call env idx x = Some c}"
      using execute_map_performs [of ?batch "shopify_to_moysklad_call env idx"
              "shopify_to_moysklad_task env idx" st]
            performs_shopify_to_moysklad_task
      by blast
    have step: "sync_shopify_to_moysklad_loop env i valid_products idx st =
                sync_shopify_to_moysklad_loop env (i + BATCH_SIZE) valid_products idx
                  (sleep INTER_BATCH_DELAY st1)"
      by (subst sync_shopify_to_moysklad_loop.simps) (simp add: True ex(1))
    from "1.IH" [OF True ex(1) [symmetric] refl]
    obtain e2 where e2:
      "trace (snd (sync_shopify_to_moysklad_loop env (i + BATCH_SIZE) valid_products idx
              (sleep INTER_BATCH_DELAY st1))) = trace (sleep INTER_BATCH_DELAY st1) @ e2"
      "set (remote_calls e2) =
         {c. \<exists>x \<in> set (drop (i + BATCH_SIZE) valid_products).
               shopify_to_moysklad_call env idx x = Some c}"
      by auto
    have "set (remote_calls (e1 @ [Sleep INTER_BATCH_DELAY] @ e2)) =
          {c. \<exists>x \<in> set (drop i valid_products). shopify_to_moysklad_call env idx x = Some c}"
      unfolding set_drop_split [of i valid_products BATCH_SIZE]
      by (auto simp: remote_calls_append ex(3) e2(2))
    moreover have "trace (snd (sync_shopify_to_moysklad_loop env i valid_products idx st)) =
                   trace st @ (e1 @ [Sleep INTER_BATCH_DELAY] @ e2)"
      unfolding step e2(1) by (simp add: sleep_def ex(2))
    ultimately show ?thesis by metis
  qed
qed

lemma moysklad_to_shopify_call_cases:
  "moysklad_to_shopify_call env idx ms = Some c \<longleftrightarrow>
     (dict_get idx (ms_code ms) = None
        \<and> c = ShopifyCreateProduct (moysklad_to_shopify_product env ms))
     \<or> (\<exists>target. dict_get idx (ms_code ms) = Some target
           \<and> no_changes_detected (ms_updated_at ms) (sh_updated_at target) = Inr False
           \<and> c = ShopifyUpdateProduct
                  ((moysklad_to_shopify_product env ms)\<lparr>sh_id := sh_id target\<rparr>))"
  unfolding moysklad_to_shopify_call_def
  by (cases "dict_get idx (ms_code ms)") auto

lemma shopify_to_moysklad_call_cases:
  "shopify_to_moysklad_call env idx sh = Some c \<longleftrightarrow>
     (dict_get idx (sh_sku sh) = None
        \<and> c = MoyskladCreateProduct (shopify_to_moysklad_product env sh))
     \<or> (\<exists>target. dict_get idx (sh_sku sh) = Some target
           \<and> no_changes_detected (sh_updated_at sh) (ms_updated_at target) = Inr False
           \<and> c = MoyskladUpdateProduct
                  ((shopify_to_moysklad_product env sh)\<lparr>ms_id := ms_id target\<rparr>))"
  unfolding shopify_to_moysklad_call_def
  by (cases "dict_get idx (sh_sku sh)") auto

text \<open>The remote calls of a whole direction: the creates of the keyed products without
  counterpart, and the updates of the keyed products whose comparison with the
  counterpart says the source is newer or cannot be made. A product without a key, a
  product that is not newer, and a product whose comparison raises cause no call.\<close>

lemma moysklad_to_shopify_calls_of_sync:
  "set (remote_calls (drop (length (trace st))
          (trace (snd (sync_moysklad_to_shopify env moysklad_products shopify_by_sku st))))) =
     {ShopifyCreateProduct (moysklad_to_shopify_product env ms) | ms.
        ms \<in> set moysklad_products \<and> truthy (ms_code ms)
        \<and> dict_get shopify_by_sku (ms_code ms) = None}
     \<union>
     {ShopifyUpdateProduct ((moysklad_to_shopify_product env ms)\<lparr>sh_id := sh_id target\<rparr>)
        | ms target.
        ms \<in> set moysklad_products \<and> truthy (ms_code ms)
        \<and> dict_get shopify_by_sku (ms_code ms) = Some target
        \<and> no_changes_detected (ms_updated_at ms) (sh_updated_at target) = Inr False}"
  (is "?L = ?C \<union> ?U")
proof -
  obtain evs where evs:
    "trace (snd (sync_moysklad_to_shopify env moysklad_products shopify_by_sku st)) =
       trace st @ evs"
    "set (remote_calls evs) =
       {c. \<exists>x \<in> set (filter (\<lambda>p. truthy (ms_code p)) moysklad_products).
             moysklad_to_shopify_call env shopify_by_sku x = Some c}"
    using sync_moysklad_to_shopify_loop_calls [of env 0
            "filter (\<lambda>p. truthy (ms_code p)) moysklad_products" shopify_by_sku st]
    by (auto simp: sync_moysklad_to_shopify_def)
  have "{c. \<exists>x \<in> set (filter (\<lambda>p. truthy (ms_code p)) moysklad_products).
             moysklad_to_shopify_call env shopify_by_sku x = Some c} = ?C \<union> ?U"
    unfolding moysklad_to_shopify_call_cases by auto
  then show ?thesis
    using evs by simp
qed

lemma shopify_to_moysklad_calls_of_sync:
  "set (remote_calls (drop (length (trace st))
          (trace (snd (sync_shopify_to_moysklad env shopify_products moysklad_by_code st))))) =
     {MoyskladCreateProduct (shopify_to_moysklad_product env sh) | sh.
        sh \<in> set shopify_products \<and> truthy (sh_sku sh)
        \<and> dict_get moysklad_by_code (sh_sku sh) = None}
     \<union>
     {MoyskladUpdateProduct ((shopify_to_moysklad_product env sh)\<lparr>ms_id := ms_id target\<rparr>)
        | sh target.
        sh \<in> set shopify_products \<and> truthy (sh_sku sh)
        \<and> dict_get moysklad_by_code (sh_sku sh) = Some target
        \<and> no_changes_detected (sh_updated_at sh) (ms_updated_at target) = Inr False}"
  (is "?L = ?C \<union> ?U")
proof -
  obtain evs where evs:
    "trace (snd (sync_shopify_to_moysklad env shopify_products moysklad_by_code st)) =
       trace st @ evs"
    "set (remote_calls evs) =
       {c. \<exists>x \<in> set (filter (\<lambda>p. truthy (sh_sku p)) shopify_products).
             shopify_to_moysklad_call env moysklad_by_code x = Some c}"
    using sync_shopify_to_moysklad_loop_calls [of env 0
            "filter (\<lambda>p. truthy (sh_sku p)) shopify_products" moysklad_by_code st]
    by (auto simp: sync_shopify_to_moysklad_def)
  have "{c. \<exists>x \<in> set (filter (\<lambda>p. truthy (sh_sku p)) shopify_products).
             shopify_to_moysklad_call env moysklad_by_code x = Some c} = ?C \<union> ?U"
    unfolding shopify_to_moysklad_call_cases by auto
  then show ?thesis
    using evs by simp
qed

text \<open>
  Claim C4. Every source record with a key gets exactly one of: a create when the target
  index has no counterpart, a skip when both records carry \<open>updated_at\<close> and the
  source's is not newer, and an update otherwise.

  The code does so when \<open>updated_at\<close> is missing or holds a timestamp (lemmas
  \<open>moysklad_to_shopify_call_cases\<close>, \<open>shopify_to_moysklad_call_cases\<close>). It does not
  when both records have the attribute and one of them holds \<^verbatim>\<open>None\<close>, where the claim
  asks for an update: \<^verbatim>\<open>hasattr\<close> is true, the comparison \<^verbatim>\<open><=\<close> raises
  \<^verbatim>\<open>TypeError\<close> in each of the three attempts, the task ends in \<open>RetryError\<close>, the
  trace grows by the two waits only, and neither a create, nor an update, nor a skip
  (which would return the target record) takes place, in either direction. On the
  example platforms the direction logs the task as failed and issues no remote call for
  a keyed product whose counterpart exists.
\<close>

theorem update_with_empty_timestamp_raises:
  "update_shopify_product env (ms_product\<lparr>ms_updated_at := Holds None\<rparr>)
       (shopify_product\<lparr>sh_updated_at := Holds b\<rparr>) tr =
     (Inl (RetryError (OtherException ''TypeError'')),
      tr @ [Sleep wait_fixed, Sleep wait_fixed])
   \<and> update_shopify_product env (ms_product\<lparr>ms_updated_at := Holds a\<rparr>)
       (shopify_product\<lparr>sh_updated_at := Holds None\<rparr>) tr =
     (Inl (RetryError (OtherException ''TypeError'')),
      tr @ [Sleep wait_fixed, Sleep wait_fixed])
   \<and> update_moysklad_product env (shopify_product\<lparr>sh_updated_at := Holds None\<rparr>)
       (ms_product\<lparr>ms_updated_at := Holds b\<rparr>) tr =
     (Inl (RetryError (OtherException ''TypeError'')),
      tr @ [Sleep wait_fixed, Sleep wait_fixed])
   \<and> update_moysklad_product env (shopify_product\<lparr>sh_updated_at := Holds a\<rparr>)
       (ms_product\<lparr>ms_updated_at := Holds None\<rparr>) tr =
     (Inl (RetryError (OtherException ''TypeError'')),
      tr @ [Sleep wait_fixed, Sleep wait_fixed])
   \<and> dict_get (index_by sh_sku [example_sh])
        (ms_code (example_ms\<lparr>ms_updated_at := Holds None\<rparr>)) = Some example_sh
   \<and> truthy (ms_code (example_ms\<lparr>ms_updated_at := Holds None\<rparr>))
   \<and> sync_moysklad_to_shopify example_env [example_ms\<lparr>ms_updated_at := Holds None\<rparr>]
        (index_by sh_sku [example_sh]) init_state =
     (Inr (),
      init_state\<lparr>trace := [Sleep wait_fixed, Sleep wait_fixed, Sleep INTER_BATCH_DELAY],
                 logged := [TaskFailed 0 (RetryError (OtherException ''TypeError''))]\<rparr>)"
proof -
  have 1: "no_changes_detected (Holds None) (Holds b) = Inl (OtherException ''TypeError'')"
    "no_changes_detected (Holds a) (Holds None) = Inl (OtherException ''TypeError'')"
    by (simp_all add: no_changes_detected_def split: option.splits)
  have idx: "dict_get (index_by sh_sku [example_sh])
               (ms_code (example_ms\<lparr>ms_updated_at := Holds None\<rparr>)) = Some example_sh"
    by (simp add: index_by_def dict_get_def truthy_def example_sh_def example_ms_def)
  have key: "truthy (ms_code (example_ms\<lparr>ms_updated_at := Holds None\<rparr>))"
    by (simp add: truthy_def example_ms_def)
  have task: "moysklad_to_shopify_task example_env (index_by sh_sku [example_sh])
                (example_ms\<lparr>ms_updated_at := Holds None\<rparr>) tr' =
              (Inl (RetryError (OtherException ''TypeError'')),
               tr' @ [Sleep wait_fixed, Sleep wait_fixed])" for tr'
  proof -
    have "no_changes_detected (ms_updated_at (example_ms\<lparr>ms_updated_at := Holds None\<rparr>))
            (sh_updated_at example_sh) = Inl (OtherException ''TypeError'')"
      by (simp add: no_changes_detected_def example_sh_def)
    moreover have "dict_get (index_by sh_sku [example_sh]) (ms_code example_ms) = Some example_sh"
      using idx by simp
    ultimately show ?thesis
      using update_shopify_product_raises [of "example_ms\<lparr>ms_updated_at := Holds None\<rparr>"
              example_sh "OtherException ''TypeError''" example_env tr']
      by (simp add: moysklad_to_shopify_task_def)
  qed
  have sync: "sync_moysklad_to_shopify example_env [example_ms\<lparr>ms_updated_at := Holds None\<rparr>]
        (index_by sh_sku [example_sh]) init_state =
     (Inr (),
      init_state\<lparr>trace := [Sleep wait_fixed, Sleep wait_fixed, Sleep INTER_BATCH_DELAY],
                 logged := [TaskFailed 0 (RetryError (OtherException ''TypeError''))]\<rparr>)"
    using key
    by (simp add: sync_moysklad_to_shopify_def sync_moysklad_to_shopify_loop.simps
          BATCH_SIZE_def execute_tasks_eq task sleep_def init_state_def)
  show ?thesis
    using idx key sync
    by (simp add: update_shopify_product_raises update_moysklad_product_raises 1)
qed

section \<open>Properties of the catalog index\<close>

lemma index_by_foldl:
  "foldl (\<lambda>m p. case key p of None \<Rightarrow> m
                 | Some k \<Rightarrow> if truthy (Some k) then m(k \<mapsto> p) else m) m0 ps k = Some p
   \<Longrightarrow> m0 k = Some p \<or> (p \<in> set ps \<and> key p = Some k)"
proof (induction ps arbitrary: m0)
  case Nil
  then show ?case by simp
next
  case (Cons q ps)
  from Cons.IH [OF Cons.prems [simplified]] show ?case
    by (auto split: option.splits if_splits)
qed

lemma index_by_Some:
  "index_by key ps k = Some p \<Longrightarrow> p \<in> set ps \<and> key p = Some k"
  using index_by_foldl [of key Map.empty ps k p] by (simp add: index_by_def)

lemma dict_get_index_by:
  "dict_get (index_by key ps) c = Some p \<Longrightarrow> p \<in> set ps \<and> key p = c"
  by (cases c) (auto simp: dict_get_def dest: index_by_Some)

text \<open>
  Claim C8. When the index built from the target platform's catalog holds a counterpart
  for a source record, that counterpart is a record of the catalog, and every remote call
  the record's task adds to the trace is an update whose payload carries the
  counterpart's id. This holds in both directions.
\<close>

theorem update_carries_existing_id:
  "(\<forall>target.
      dict_get (index_by sh_sku all_shopify_products) (ms_code ms_product) = Some target \<longrightarrow>
        target \<in> set all_shopify_products
        \<and> (\<forall>c \<in> set (remote_calls (drop (length tr)
                    (snd (moysklad_to_shopify_task env (index_by sh_sku all_shopify_products)
                            ms_product tr)))).
              \<exists>payload. c = ShopifyUpdateProduct payload \<and> sh_id payload = sh_id target))
   \<and>
   (\<forall>target.
      dict_get (index_by ms_code all_moysklad_products) (sh_sku shopify_product) = Some target \<longrightarrow>
        target \<in> set all_moysklad_products
        \<and> (\<forall>c \<in> set (remote_calls (drop (length tr)
                    (snd (shopify_to_moysklad_task env (index_by ms_code all_moysklad_products)
                            shopify_product tr)))).
              \<exists>payload. c = MoyskladUpdateProduct payload \<and> ms_id payload = ms_id target))"
proof (intro conjI allI impI)
  fix target
  assume c: "dict_get (index_by sh_sku all_shopify_products) (ms_code ms_product) = Some target"
  then show "target \<in> set all_shopify_products"
    by (simp add: dict_get_index_by)
  show "\<forall>c \<in> set (remote_calls (drop (length tr)
            (snd (moysklad_to_shopify_task env (index_by sh_sku all_shopify_products)
                    ms_product tr)))).
          \<exists>payload. c = ShopifyUpdateProduct payload \<and> sh_id payload = sh_id target"
  proof (cases "no_changes_detected (ms_updated_at ms_product) (sh_updated_at target)
                  = Inr False")
    case True
    from update_shopify_product_trace [OF True, of env tr]
    obtain evs where
      "evs \<in> attempt_traces (ShopifyUpdateProduct
                ((moysklad_to_shopify_product env ms_product)\<lparr>sh_id := sh_id target\<rparr>))"
      "snd (update_shopify_product env ms_product target tr) = tr @ evs"
      by blast
    then show ?thesis
      by (simp add: moysklad_to_shopify_task_def c remote_calls_attempt_traces)
  next
    case False
    then obtain evs where
      "snd (update_shopify_product env ms_product target tr) = tr @ evs"
      "remote_calls evs = []"
      using performs_update_shopify_product [of ms_product target env]
      by (auto simp: performs_def)
    then show ?thesis
      by (simp add: moysklad_to_shopify_task_def c)
  qed
next
  fix target
  assume c: "dict_get (index_by ms_code all_moysklad_products) (sh_sku shopify_product) = Some target"
  then show "target \<in> set all_moysklad_products"
    by (simp add: dict_get_index_by)
  show "\<forall>c \<in> set (remote_calls (drop (length tr)
            (snd (shopify_to_moysklad_task env (index_by ms_code all_moysklad_products)
                    shopify_product tr)))).
          \<exists>payload. c = MoyskladUpdateProduct payload \<and> ms_id payload = ms_id target"
  proof (cases "no_changes_detected (sh_updated_at shopify_product) (ms_updated_at target)
                  = Inr False")
    case True
    from update_moysklad_product_trace [OF True, of env tr]
    obtain evs where
      "evs \<in> attempt_traces (MoyskladUpdateProduct
                ((shopify_to_moysklad_product env shopify_product)\<lparr>ms_id := ms_id target\<rparr>))"
      "snd (update_moysklad_product env shopify_product target tr) = tr @ evs"
      by blast
    then show ?thesis
      by (simp add: shopify_to_moysklad_task_def c remote_calls_attempt_traces)
  next
    case False
    then obtain evs where
      "snd (update_moysklad_product env shopify_product target tr) = tr @ evs"
      "remote_calls evs = []"
      using performs_update_moysklad_product [of shopify_product target env]
      by (auto simp: performs_def)
    then show ?thesis
      by (simp add: shopify_to_moysklad_task_def c)
  qed
qed

theorem update_carries_existing_id_witness:
  "dict_get (index_by sh_sku [example_sh]) (ms_code example_ms) = Some example_sh
   \<and> remote_calls (snd (moysklad_to_shopify_task example_env (index_by sh_sku [example_sh])
                          example_ms [])) =
       [ShopifyUpdateProduct ((example_to_shopify example_ms)\<lparr>sh_id := ''gid-9''\<rparr>)]
   \<and> dict_get (index_by ms_code [example_ms]) (sh_sku (example_sh\<lparr>sh_updated_at := Holds (Some 300)\<rparr>))
       = Some example_ms
   \<and> remote_calls (snd (shopify_to_moysklad_task example_env (index_by ms_code [example_ms])
                          (example_sh\<lparr>sh_updated_at := Holds (Some 300)\<rparr>) [])) =
       [MoyskladUpdateProduct
          ((example_to_moysklad (example_sh\<lparr>sh_updated_at := Holds (Some 300)\<rparr>))\<lparr>ms_id := ''ms-7''\<rparr>)]"
  using update_carries_existing_id
          [where all_shopify_products = "[example_sh]" and ms_product = example_ms
             and tr = "[]" and env = example_env and all_moysklad_products = "[example_ms]"
             and shopify_product = "example_sh\<lparr>sh_updated_at := Holds (Some 300)\<rparr>"]
  by (simp add: index_by_def dict_get_def truthy_def example_sh_def example_ms_def
        moysklad_to_shopify_task_def shopify_to_moysklad_task_def
        update_shopify_product_def update_moysklad_product_def retry_eq'
        update_shopify_product_attempt_def update_moysklad_product_attempt_def
        no_changes_detected_def example_env_def Let_def)

section \<open>Properties of inventory sync\<close>

lemma performs_update_shopify_inventory:
  "performs (inventory_call (ms, sh)) (update_shopify_inventory env ms sh)"
proof (cases "sh_inventory_quantity sh = Some (case ms_stock ms of Some s \<Rightarrow> s | None \<Rightarrow> 0)")
  case True
  then show ?thesis
    by (simp add: performs_def inventory_call_def update_shopify_inventory_def retry_eq'
          update_shopify_inventory_attempt_def)
next
  case False
  have "issues (ShopifyUpdateInventory (sh_id sh) (sh_inventory_item_id sh)
                  (case ms_stock ms of Some s \<Rightarrow> s | None \<Rightarrow> 0))
               (update_shopify_inventory env ms sh)"
    unfolding update_shopify_inventory_def
    by (rule issuesI [where respond = "\<lambda>t. shopify_update_inventory env t (sh_id sh)
          (sh_inventory_item_id sh) (case ms_stock ms of Some s \<Rightarrow> s | None \<Rightarrow> 0)"])
       (use False in \<open>simp add: update_shopify_inventory_attempt_def Let_def\<close>)
  then show ?thesis
    using False by (simp add: performs_def inventory_call_def)
qed

lemma sync_product_inventory_loop_calls:
  "\<exists>evs. trace (snd (sync_product_inventory_loop env i valid_products st)) = trace st @ evs
        \<and> set (remote_calls evs) =
            {c. \<exists>x \<in> set (drop i valid_products). inventory_call x = Some c}"
proof (induction env i valid_products st rule: sync_product_inventory_loop.induct)
  case (1 env i valid_products st)
  show ?case
  proof (cases "i < length valid_products")
    case False
    then have "sync_product_inventory_loop env i valid_products st = (Inr (), st)"
      by (subst sync_product_inventory_loop.simps) simp
    then show ?thesis using False by simp
  next
    case True
    let ?batch = "take BATCH_SIZE (drop i valid_products)"
    let ?f = "\<lambda>(ms_product, shopify_product).
                update_shopify_inventory env ms_product shopify_product"
    have "\<And>x. performs (inventory_call x) (?f x)"
      using performs_update_shopify_inventory by (auto simp: split_def)
    then obtain rs st1 e1 where ex:
      "execute_tasks_with_limited_concurrency (map ?f ?batch) st = (Inr rs, st1)"
      "trace st1 = trace st @ e1"
      "set (remote_calls e1) = {c. \<exists>x \<in> set ?batch. inventory_call x = Some c}"
      using execute_map_performs [of ?batch inventory_call ?f st]
      by blast
    have step: "sync_product_inventory_loop env i valid_products st =
                sync_product_inventory_loop env (i + BATCH_SIZE) valid_products
                  (sleep INTER_BATCH_DELAY st1)"
      by (subst sync_product_inventory_loop.simps) (simp add: True ex(1))
    from "1.IH" [OF True ex(1) [symmetric] refl]
    obtain e2 where e2:
      "trace (snd (sync_product_inventory_loop env (i + BATCH_SIZE) valid_products
              (sleep INTER_BATCH_DELAY st1))) = trace (sleep INTER_BATCH_DELAY st1) @ e2"
      "set (remote_calls e2) =
         {c. \<exists>x \<in> set (drop (i + BATCH_SIZE) valid_products). inventory_call x = Some c}"
      by auto
    have "set (remote_calls (e1 @ [Sleep INTER_BATCH_DELAY] @ e2)) =
          {c. \<exists>x \<in> set (drop i valid_products). inventory_call x = Some c}"
      unfolding set_drop_split [of i valid_products BATCH_SIZE]
      by (auto simp: remote_calls_append ex(3) e2(2))
    moreover have "trace (snd (sync_product_inventory_loop env i valid_products st)) =
                   trace st @ (e1 @ [Sleep INTER_BATCH_DELAY] @ e2)"
      unfolding step e2(1) by (simp add: sleep_def ex(2))
    ultimately show ?thesis by metis
  qed
qed

lemma in_inventory_valid_products:
  "(ms, sh) \<in> set (inventory_valid_products products idx) \<longleftrightarrow>
     ms \<in> set products \<and> truthy (ms_code ms) \<and> dict_get idx (ms_code ms) = Some sh"
  (is "?L \<longleftrightarrow> ?R")
proof
  assume ?L
  then obtain x where "x \<in> set products"
    "(if truthy (ms_code x) then
        (case dict_get idx (ms_code x) of None \<Rightarrow> None | Some t \<Rightarrow> Some (x, t))
      else None) = Some (ms, sh)"
    unfolding inventory_valid_products_def set_map_filter by blast
  then show ?R
    by (cases "dict_get idx (ms_code x)") (simp_all split: if_splits)
next
  assume r: ?R
  then have "(if truthy (ms_code ms) then
        (case dict_get idx (ms_code ms) of None \<Rightarrow> None | Some t \<Rightarrow> Some (ms, t))
      else None) = Some (ms, sh)"
    by simp
  with r show ?L
    unfolding inventory_valid_products_def set_map_filter by blast
qed

lemma inventory_calls_of_sync:
  "set (remote_calls (drop (length (trace st))
          (trace (snd (sync_product_inventory_loop env 0
                         (inventory_valid_products moysklad_products shopify_by_sku) st))))) =
     {ShopifyUpdateInventory (sh_id sh) (sh_inventory_item_id sh)
        (case ms_stock ms of Some s \<Rightarrow> s | None \<Rightarrow> 0) | ms sh.
        ms \<in> set moysklad_products \<and> truthy (ms_code ms)
        \<and> dict_get shopify_by_sku (ms_code ms) = Some sh
        \<and> sh_inventory_quantity sh \<noteq> Some (case ms_stock ms of Some s \<Rightarrow> s | None \<Rightarrow> 0)}"
  (is "?L = ?R")
proof -
  obtain evs where evs:
    "trace (snd (sync_product_inventory_loop env 0
                   (inventory_valid_products moysklad_products shopify_by_sku) st)) =
       trace st @ evs"
    "set (remote_calls evs) =
       {c. \<exists>x \<in> set (inventory_valid_products moysklad_products shopify_by_sku).
             inventory_call x = Some c}"
    using sync_product_inventory_loop_calls [of env 0
            "inventory_valid_products moysklad_products shopify_by_sku" st]
    by auto
  have "{c. \<exists>x \<in> set (inventory_valid_products moysklad_products shopify_by_sku).
             inventory_call x = Some c} = ?R"
  proof (intro set_eqI iffI)
    fix c
    assume "c \<in> {c. \<exists>x \<in> set (inventory_valid_products moysklad_products shopify_by_sku).
             inventory_call x = Some c}"
    then obtain ms sh where x:
      "(ms, sh) \<in> set (inventory_valid_products moysklad_products shopify_by_sku)"
      "inventory_call (ms, sh) = Some c"
      by auto
    from x(2) have "c = ShopifyUpdateInventory (sh_id sh) (sh_inventory_item_id sh)
                          (case ms_stock ms of Some s \<Rightarrow> s | None \<Rightarrow> 0)"
      "sh_inventory_quantity sh \<noteq> Some (case ms_stock ms of Some s \<Rightarrow> s | None \<Rightarrow> 0)"
      by (simp_all add: inventory_call_def split: if_splits)
    with x(1) show "c \<in> ?R"
      unfolding in_inventory_valid_products by blast
  next
    fix c
    assume "c \<in> ?R"
    then obtain ms sh where x:
      "c = ShopifyUpdateInventory (sh_id sh) (sh_inventory_item_id sh)
             (case ms_stock ms of Some s \<Rightarrow> s | None \<Rightarrow> 0)"
      "ms \<in> set moysklad_products" "truthy (ms_code ms)"
      "dict_get shopify_by_sku (ms_code ms) = Some sh"
      "sh_inventory_quantity sh \<noteq> Some (case ms_stock ms of Some s \<Rightarrow> s | None \<Rightarrow> 0)"
      by blast
    have 1: "(ms, sh) \<in> set (inventory_valid_products moysklad_products shopify_by_sku)"
      unfolding in_inventory_valid_products using x by simp
    have 2: "inventory_call (ms, sh) = Some c"
      using x(1,5) by (simp add: inventory_call_def)
    show "c \<in> {c. \<exists>x \<in> set (inventory_valid_products moysklad_products shopify_by_sku).
             inventory_call x = Some c}"
      using 1 2 by blast
  qed
  then show ?thesis
    using evs by simp
qed

text \<open>
  Claim C7. \<open>update_shopify_inventory\<close> compares the stock computed from the Moysklad
  product (its \<open>stock\<close>, or 0 when it has none) with the quantity known for the Shopify
  product. When the two are equal it returns without touching the trace: no remote write.
  When they differ, or no quantity is known, the trace grows by the inventory update with
  the computed stock (one to three attempts). Over the matched pairs of an inventory
  sync, the remote calls added to the trace are exactly the inventory updates of the
  pairs whose known quantity is not the computed stock.
\<close>

theorem inventory_update_only_on_difference:
  "(let moysklad_stock = (case ms_stock ms_product of Some s \<Rightarrow> s | None \<Rightarrow> 0);
        r = update_shopify_inventory env ms_product shopify_product tr
    in (sh_inventory_quantity shopify_product = Some moysklad_stock \<longrightarrow> r = (Inr (), tr))
       \<and> (sh_inventory_quantity shopify_product \<noteq> Some moysklad_stock \<longrightarrow>
            (\<exists>evs. evs \<in> attempt_traces
                       (ShopifyUpdateInventory (sh_id shopify_product)
                          (sh_inventory_item_id shopify_product) moysklad_stock)
                  \<and> snd r = tr @ evs)))
   \<and>
   set (remote_calls (drop (length (trace st))
          (trace (snd (sync_product_inventory_loop env 0
                         (inventory_valid_products moysklad_products shopify_by_sku) st))))) =
     {ShopifyUpdateInventory (sh_id sh) (sh_inventory_item_id sh)
        (case ms_stock ms of Some s \<Rightarrow> s | None \<Rightarrow> 0) | ms sh.
        ms \<in> set moysklad_products \<and> truthy (ms_code ms)
        \<and> dict_get shopify_by_sku (ms_code ms) = Some sh
        \<and> sh_inventory_quantity sh \<noteq> Some (case ms_stock ms of Some s \<Rightarrow> s | None \<Rightarrow> 0)}"
proof -
  have task:
    "(let moysklad_stock = (case ms_stock ms_product of Some s \<Rightarrow> s | None \<Rightarrow> 0);
          r = update_shopify_inventory env ms_product shopify_product tr
      in (sh_inventory_quantity shopify_product = Some moysklad_stock \<longrightarrow> r = (Inr (), tr))
         \<and> (sh_inventory_quantity shopify_product \<noteq> Some moysklad_stock \<longrightarrow>
              (\<exists>evs. evs \<in> attempt_traces
                         (ShopifyUpdateInventory (sh_id shopify_product)
                            (sh_inventory_item_id shopify_product) moysklad_stock)
                    \<and> snd r = tr @ evs)))"
    by (auto simp: Let_def update_shopify_inventory_def retry_eq' attempt_traces_def
                   update_shopify_inventory_attempt_def split: sum.splits option.splits)
  show ?thesis
    using task inventory_calls_of_sync [of st env moysklad_products shopify_by_sku]
    by (intro conjI) blast+
qed

theorem inventory_update_only_on_difference_witness:
  "sh_inventory_quantity example_sh = Some (case ms_stock example_ms of Some s \<Rightarrow> s | None \<Rightarrow> 0)
   \<and> update_shopify_inventory example_env example_ms example_sh [] = (Inr (), [])
   \<and> sh_inventory_quantity (example_sh\<lparr>sh_inventory_quantity := Some 7\<rparr>) \<noteq>
       Some (case ms_stock example_ms of Some s \<Rightarrow> s | None \<Rightarrow> 0)
   \<and> update_shopify_inventory example_env example_ms
        (example_sh\<lparr>sh_inventory_quantity := Some 7\<rparr>) [] =
       (Inr (), [Remote (ShopifyUpdateInventory ''gid-9'' ''inv-9'' 4)])
   \<and> update_shopify_inventory example_env (example_ms\<lparr>ms_stock := None\<rparr>)
        (example_sh\<lparr>sh_inventory_quantity := None\<rparr>) [] =
       (Inr (), [Remote (ShopifyUpdateInventory ''gid-9'' ''inv-9'' 0)])"
  using inventory_update_only_on_difference
          [where env = example_env and ms_product = example_ms and shopify_product = example_sh
             and tr = "[]"]
        inventory_update_only_on_difference
          [where env = example_env and ms_product = example_ms
             and shopify_product = "example_sh\<lparr>sh_inventory_quantity := Some 7\<rparr>"
             and tr = "[]"]
  by (simp add: Let_def example_sh_def example_ms_def example_env_def
        update_shopify_inventory_def retry_eq' update_shopify_inventory_attempt_def)

section \<open>The watermark\<close>

lemma execute_tasks_fst: "\<exists>rs. fst (execute_tasks_with_limited_concurrency tasks st) = Inr rs"
  by (simp add: execute_tasks_eq)

lemma execute_tasks_watermark:
  "last_sync_time (snd (execute_tasks_with_limited_concurrency tasks st)) = last_sync_time st"
  "clock_reads (snd (execute_tasks_with_limited_concurrency tasks st)) = clock_reads st"
  by (simp_all add: execute_tasks_eq)

lemma sync_moysklad_to_shopify_loop_ok:
  "fst (sync_moysklad_to_shopify_loop env i valid_products idx st) = Inr ()
   \<and> last_sync_time (snd (sync_moysklad_to_shopify_loop env i valid_products idx st)) =
       last_sync_time st
   \<and> clock_reads (snd (sync_moysklad_to_shopify_loop env i valid_products idx st)) =
       clock_reads st"
proof (induction env i valid_products idx st rule: sync_moysklad_to_shopify_loop.induct)
  case (1 env i valid_products idx st)
  show ?case
  proof (cases "i < length valid_products")
    case False
    then have "sync_moysklad_to_shopify_loop env i valid_products idx st = (Inr (), st)"
      by (subst sync_moysklad_to_shopify_loop.simps) simp
    then show ?thesis by simp
  next
    case True
    let ?ex = "execute_tasks_with_limited_concurrency
                (map (moysklad_to_shopify_task env idx)
                     (take BATCH_SIZE (drop i valid_products))) st"
    obtain rs st1 where ex: "?ex = (Inr rs, st1)"
      using execute_tasks_fst [of "map (moysklad_to_shopify_task env idx)
                     (take BATCH_SIZE (drop i valid_products))" st]
      by (cases ?ex) auto
    have st1: "last_sync_time st1 = last_sync_time st" "clock_reads st1 = clock_reads st"
      using execute_tasks_watermark [of "map (moysklad_to_shopify_task env idx)
                     (take BATCH_SIZE (drop i valid_products))" st]
      by (simp_all add: ex)
    have step: "sync_moysklad_to_shopify_loop env i valid_products idx st =
                sync_moysklad_to_shopify_loop env (i + BATCH_SIZE) valid_products idx
                  (sleep INTER_BATCH_DELAY st1)"
      by (subst sync_moysklad_to_shopify_loop.simps) (simp add: True ex)
    show ?thesis
      unfolding step
      using "1.IH" [OF True ex [symmetric] refl]
      by (simp add: sleep_def st1)
  qed
qed

lemma sync_shopify_to_moysklad_loop_ok:
  "fst (sync_shopify_to_moysklad_loop env i valid_products idx st) = Inr ()
   \<and> last_sync_time (snd (sync_shopify_to_moysklad_loop env i valid_products idx st)) =
       last_sync_time st
   \<and> clock_reads (snd (sync_shopify_to_moysklad_loop env i valid_products idx st)) =
       clock_reads st"
proof (induction env i valid_products idx st rule: sync_shopify_to_moysklad_loop.induct)
  case (1 env i valid_products idx st)
  show ?case
  proof (cases "i < length valid_products")
    case False
    then have "sync_shopify_to_moysklad_loop env i valid_products idx st = (Inr (), st)"
      by (subst sync_shopify_to_moysklad_loop.simps) simp
    then show ?thesis by simp
  next
    case True
    let ?ex = "execute_tasks_with_limited_concurrency
                (map (shopify_to_moysklad_task env idx)
                     (take BATCH_SIZE (drop i valid_products))) st"
    obtain rs st1 where ex: "?ex = (Inr rs, st1)"
      using execute_tasks_fst [of "map (shopify_to_moysklad_task env idx)
                     (take BATCH_SIZE (drop i valid_products))" st]
      by (cases ?ex) auto
    have st1: "last_sync_time st1 = last_sync_time st" "clock_reads st1 = clock_reads st"
      using execute_tasks_watermark [of "map (shopify_to_moysklad_task env idx)
                     (take BATCH_SIZE (drop i valid_products))" st]
      by (simp_all add: ex)
    have step: "sync_shopify_to_moysklad_loop env i valid_products idx st =
                sync_shopify_to_moysklad_loop env (i + BATCH_SIZE) valid_products idx
                  (sleep INTER_BATCH_DELAY st1)"
      by (subst sync_shopify_to_moysklad_loop.simps) (simp add: True ex)
    show ?thesis
      unfolding step
      using "1.IH" [OF True ex [symmetric] refl]
      by (simp add: sleep_def st1)
  qed
qed

lemma sync_moysklad_to_shopify_ok:
  "\<exists>st'. sync_moysklad_to_shopify env products idx st = (Inr (), st')
         \<and> last_sync_time st' = last_sync_time st \<and> clock_reads st' = clock_reads st"
  using sync_moysklad_to_shopify_loop_ok
          [of env 0 "filter (\<lambda>p. truthy (ms_code p)) products" idx st]
  by (cases "sync_moysklad_to_shopify_loop env 0 (filter (\<lambda>p. truthy (ms_code p)) products) idx st")
     (simp add: sync_moysklad_to_shopify_def)

lemma sync_shopify_to_moysklad_ok:
  "\<exists>st'. sync_shopify_to_moysklad env products idx st = (Inr (), st')
         \<and> last_sync_time st' = last_sync_time st \<and> clock_reads st' = clock_reads st"
  using sync_shopify_to_moysklad_loop_ok
          [of env 0 "filter (\<lambda>p. truthy (sh_sku p)) products" idx st]
  by (cases "sync_shopify_to_moysklad_loop env 0 (filter (\<lambda>p. truthy (sh_sku p)) products) idx st")
     (simp add: sync_shopify_to_moysklad_def)

lemma gather_directions_ok:
  "\<exists>rs st'. gather False [sync_moysklad_to_shopify env ms_products sh_idx,
                          sync_shopify_to_moysklad env sh_products ms_idx] st = (Inr rs, st')
         \<and> last_sync_time st' = last_sync_time st \<and> clock_reads st' = clock_reads st"
proof -
  obtain st1 where 1: "sync_moysklad_to_shopify env ms_products sh_idx st = (Inr (), st1)"
    "last_sync_time st1 = last_sync_time st" "clock_reads st1 = clock_reads st"
    using sync_moysklad_to_shopify_ok by blast
  obtain st2 where 2: "sync_shopify_to_moysklad env sh_products ms_idx st1 = (Inr (), st2)"
    "last_sync_time st2 = last_sync_time st1" "clock_reads st2 = clock_reads st1"
    using sync_shopify_to_moysklad_ok by blast
  show ?thesis
    by (simp add: gather_def 1 2)
qed

lemma fetch_simps:
  "last_sync_time (snd (moysklad_fetch env w m st)) = last_sync_time st"
  "last_sync_time (snd (shopify_fetch env w m st)) = last_sync_time st"
  "clock_reads (snd (moysklad_fetch env w m st)) = clock_reads st"
  "clock_reads (snd (shopify_fetch env w m st)) = clock_reads st"
  "last_sync_time (snd (now env st)) = last_sync_time st"
  "last_sync_time (snd (products_modified_since env full st)) = last_sync_time st"
  by (simp_all add: moysklad_fetch_def shopify_fetch_def now_def products_modified_since_def
        split: prod.splits)

lemma sync_products_finish:
  "\<exists>st'. await (gather False [sync_moysklad_to_shopify env ms_products sh_idx,
                              sync_shopify_to_moysklad env sh_products ms_idx])
            (\<lambda>finished st. (Inr (), snd (now env (st\<lparr>last_sync_time := Some start_time\<rparr>)))) st
          = (Inr (), st') \<and> last_sync_time st' = Some start_time"
proof -
  obtain rs st1 where g: "gather False [sync_moysklad_to_shopify env ms_products sh_idx,
                          sync_shopify_to_moysklad env sh_products ms_idx] st = (Inr rs, st1)"
    using gather_directions_ok by blast
  show ?thesis
    by (simp add: await_def g now_def)
qed

lemma await_watermark:
  assumes "last_sync_time s = t0"
    and "\<And>s. last_sync_time (snd (m s)) = last_sync_time s"
    and "\<And>v s1. last_sync_time s1 = t0 \<Longrightarrow>
           (case k v s1 of (Inl e, s') \<Rightarrow> last_sync_time s' = t0
                         | (Inr u, s') \<Rightarrow> last_sync_time s' = t1)"
  shows "case await m k s of (Inl e, s') \<Rightarrow> last_sync_time s' = t0
                           | (Inr u, s') \<Rightarrow> last_sync_time s' = t1"
proof (cases "m s")
  case (Pair r s1)
  have s1: "last_sync_time s1 = t0"
    using assms(2) [of s] assms(1) by (simp add: Pair)
  show ?thesis
  proof (cases r)
    case (Inl e)
    then show ?thesis by (simp add: await_def Pair s1)
  next
    case (Inr v)
    then show ?thesis using assms(3) [OF s1, of v] by (simp add: await_def Pair)
  qed
qed

lemma refetch_watermark:
  "last_sync_time (snd ((if c then
       await (moysklad_fetch env False None) (\<lambda>all_moysklad_products.
       await (shopify_fetch env False None) (\<lambda>all_shopify_products st.
         (Inr (all_moysklad_products, all_shopify_products), st)))
     else (\<lambda>st. (Inr (x, y), st))) s)) = last_sync_time s"
  by (simp add: await_def moysklad_fetch_def shopify_fetch_def split: sum.splits)

lemma sync_products_try_watermark:
  "(case sync_products_try env full_sync st of
      (Inl e, st') \<Rightarrow> last_sync_time st' = last_sync_time st
    | (Inr u, st') \<Rightarrow> last_sync_time st' = Some (clock env (clock_reads st)))"
proof -
  obtain st1 where n: "now env st = (clock env (clock_reads st), st1)"
    "last_sync_time st1 = last_sync_time st"
    by (simp add: now_def)
  obtain ms st2 where m: "products_modified_since env full_sync st1 = (ms, st2)"
    "last_sync_time st2 = last_sync_time st"
    using fetch_simps(6) [of env full_sync st1] n(2)
    by (cases "products_modified_since env full_sync st1") simp
  show ?thesis
    unfolding sync_products_try_def n(1) m(1) prod.case
  proof (rule await_watermark [OF m(2) fetch_simps(1)],
         rule await_watermark [OF _ fetch_simps(2)], assumption,
         rule await_watermark [OF _ refetch_watermark], assumption)
    fix v :: "moysklad_product list" and va :: "shopify_product list"
      and vb :: "moysklad_product list \<times> shopify_product list" and s1b :: sync_state
    obtain a b where vb: "vb = (a, b)" by (cases vb)
    obtain st' where
      "await (gather False [sync_moysklad_to_shopify env v (index_by sh_sku b),
                            sync_shopify_to_moysklad env va (index_by ms_code a)])
         (\<lambda>finished s. (Inr (), snd (now env (s\<lparr>last_sync_time := Some (clock env (clock_reads st))\<rparr>)))) s1b
       = (Inr (), st')" "last_sync_time st' = Some (clock env (clock_reads st))"
      using sync_products_finish by blast
    then show "case (case vb of (all_moysklad_products, all_shopify_products) \<Rightarrow>
                 await (gather False
                    [sync_moysklad_to_shopify env v (index_by sh_sku all_shopify_products),
                     sync_shopify_to_moysklad env va (index_by ms_code all_moysklad_products)])
                  (\<lambda>finished s. (Inr (), snd (now env (s\<lparr>last_sync_time := Some (clock env (clock_reads st))\<rparr>))))) s1b of
               (Inl e, s') \<Rightarrow> last_sync_time s' = last_sync_time st
             | (Inr u, s') \<Rightarrow> last_sync_time s' = Some (clock env (clock_reads st))"
      by (simp add: vb)
  qed
qed

lemma sync_products_watermark:
  "(case sync_products env full_sync st of
      (Inl e, st') \<Rightarrow> last_sync_time st' = last_sync_time st
    | (Inr u, st') \<Rightarrow> last_sync_time st' = Some (clock env (clock_reads st)))"
  using sync_products_try_watermark [where env = env and full_sync = full_sync and st = st]
  by (simp add: sync_products_def log_and_reraise_def split: prod.splits sum.splits)

lemma products_modified_since_trace:
  "trace (snd (products_modified_since env full_sync (snd (now env st)))) = trace st"
  by (simp add: products_modified_since_def now_def)

lemma sync_products_fetch_fails:
  assumes "moysklad_get_all_products env (trace st) False
      (fst (products_modified_since env full_sync (snd (now env st)))) = Inl e"
  shows "fst (sync_products env full_sync st) = Inl e"
proof -
  obtain t st1 where n: "now env st = (t, st1)"
    by (cases "now env st")
  obtain ms st2 where m: "products_modified_since env full_sync st1 = (ms, st2)"
    by (cases "products_modified_since env full_sync st1")
  have tr: "trace st2 = trace st"
    using products_modified_since_trace [of env full_sync st] by (simp add: n m)
  have "moysklad_get_all_products env (trace st2) False ms = Inl e"
    using assms by (simp add: n m tr)
  then show ?thesis
    by (simp add: sync_products_def log_and_reraise_def sync_products_try_def n m await_def
          moysklad_fetch_def)
qed

lemma sync_products_second_fetch_fails:
  assumes "moysklad_get_all_products env (trace st) False
      (fst (products_modified_since env full_sync (snd (now env st)))) = Inr ps"
    and "shopify_get_all_products env
      (trace st @ [Remote (MoyskladGetAllProducts False
          (fst (products_modified_since env full_sync (snd (now env st)))))]) False
      (fst (products_modified_since env full_sync (snd (now env st)))) = Inl e"
  shows "fst (sync_products env full_sync st) = Inl e"
proof -
  obtain t st1 where n: "now env st = (t, st1)"
    by (cases "now env st")
  obtain ms st2 where m: "products_modified_since env full_sync st1 = (ms, st2)"
    by (cases "products_modified_since env full_sync st1")
  have tr: "trace st2 = trace st"
    using products_modified_since_trace [of env full_sync st] by (simp add: n m)
  have 1: "moysklad_get_all_products env (trace st2) False ms = Inr ps"
    using assms(1) by (simp add: n m tr)
  have 2: "shopify_get_all_products env
             (trace st2 @ [Remote (MoyskladGetAllProducts False ms)]) False ms = Inl e"
    using assms(2) by (simp add: n m tr)
  show ?thesis
    by (simp add: sync_products_def log_and_reraise_def sync_products_try_def n m await_def
          moysklad_fetch_def shopify_fetch_def 1 2)
qed

text \<open>
  Claim C2. When \<open>sync_products\<close> raises, \<open>last_sync_time\<close> is what it was before the
  call; when it returns, \<open>last_sync_time\<close> is the clock reading taken at the start of the
  call. In particular a failure of the first catalog fetch, from Moysklad or from Shopify,
  makes \<open>sync_products\<close> raise that error and leaves the watermark untouched. If the
  clock at the start of the call is not earlier than the watermark, the watermark after
  the call is not earlier than the one before.
\<close>

theorem watermark_moves_only_after_clean_run:
  "(let r = sync_products env full_sync st;
        modified_since = fst (products_modified_since env full_sync (snd (now env st)))
    in (isl (fst r) \<longrightarrow> last_sync_time (snd r) = last_sync_time st)
       \<and> (\<not> isl (fst r) \<longrightarrow> last_sync_time (snd r) = Some (clock env (clock_reads st)))
       \<and> (\<forall>e. moysklad_get_all_products env (trace st) False modified_since = Inl e \<longrightarrow>
              fst r = Inl e \<and> last_sync_time (snd r) = last_sync_time st)
       \<and> (\<forall>e products.
              moysklad_get_all_products env (trace st) False modified_since = Inr products
              \<and> shopify_get_all_products env
                  (trace st @ [Remote (MoyskladGetAllProducts False modified_since)])
                  False modified_since = Inl e \<longrightarrow>
              fst r = Inl e \<and> last_sync_time (snd r) = last_sync_time st)
       \<and> (\<forall>t0. last_sync_time st = Some t0 \<and> t0 \<le> clock env (clock_reads st) \<longrightarrow>
              (\<exists>t1. last_sync_time (snd r) = Some t1 \<and> t0 \<le> t1)))"
proof -
  obtain res st' where r: "sync_products env full_sync st = (res, st')"
    by (cases "sync_products env full_sync st")
  have w: "isl res \<Longrightarrow> last_sync_time st' = last_sync_time st"
    "\<not> isl res \<Longrightarrow> last_sync_time st' = Some (clock env (clock_reads st))"
    using sync_products_watermark [where env = env and full_sync = full_sync and st = st]
    by (auto simp: r split: sum.splits)
  have f1: "fst (sync_products env full_sync st) = Inl e"
    if "moysklad_get_all_products env (trace st) False
          (fst (products_modified_since env full_sync (snd (now env st)))) = Inl e" for e
    using that by (rule sync_products_fetch_fails)
  have f2: "fst (sync_products env full_sync st) = Inl e"
    if "moysklad_get_all_products env (trace st) False
          (fst (products_modified_since env full_sync (snd (now env st)))) = Inr ps"
       "shopify_get_all_products env
          (trace st @ [Remote (MoyskladGetAllProducts False
              (fst (products_modified_since env full_sync (snd (now env st)))))]) False
          (fst (products_modified_since env full_sync (snd (now env st)))) = Inl e" for e ps
    using that by (rule sync_products_second_fetch_fails)
  show ?thesis
    unfolding Let_def r fst_conv snd_conv
    using w f1 f2 by (cases "isl res") (auto simp: r)
qed

theorem watermark_moves_only_after_clean_run_witness:
  "sync_products (example_env\<lparr>moysklad_get_all_products := failing_fetch\<rparr>) False
      (init_state\<lparr>last_sync_time := Some 500\<rparr>) =
     (Inl (MoyskladError ''timeout''),
      \<lparr>last_sync_time = Some 500,
       trace = [Remote (MoyskladGetAllProducts False (Some 500))],
       logged = [ProductSyncError (MoyskladError ''timeout'')],
       clock_reads = 1\<rparr>)
   \<and> sync_products example_env False (init_state\<lparr>last_sync_time := Some 500\<rparr>) =
     (Inr (),
      \<lparr>last_sync_time = Some 1000,
       trace = [Remote (MoyskladGetAllProducts False (Some 500)),
                Remote (ShopifyGetAllProducts False (Some 500)),
                Remote (MoyskladGetAllProducts False None),
                Remote (ShopifyGetAllProducts False None)],
       logged = [],
       clock_reads = 2\<rparr>)"
  using watermark_moves_only_after_clean_run
          [where env = "example_env\<lparr>moysklad_get_all_products := failing_fetch\<rparr>"
             and full_sync = False and st = "init_state\<lparr>last_sync_time := Some 500\<rparr>"]
        watermark_moves_only_after_clean_run
          [where env = example_env
             and full_sync = False and st = "init_state\<lparr>last_sync_time := Some 500\<rparr>"]
  by (simp add: sync_products_def log_and_reraise_def sync_products_try_def await_def
        moysklad_fetch_def shopify_fetch_def now_def products_modified_since_def
        example_env_def failing_fetch_def init_state_def gather_def index_by_def
        sync_moysklad_to_shopify_def sync_shopify_to_moysklad_def
        sync_moysklad_to_shopify_loop.simps sync_shopify_to_moysklad_loop.simps Let_def)

section \<open>The cutoff of an incremental run\<close>

text \<open>
  Claim C5. With a watermark, an incremental run of any phase uses the watermark as its
  cutoff, and a full run uses none. Without a watermark, an incremental
  \<open>sync_products\<close> uses the clock's reading less 24 hours, but an incremental
  \<open>sync_product_inventory\<close> or \<open>sync_product_prices\<close> uses no cutoff at all: on a fresh
  service both fetch the catalog with \<open>modified_since = None\<close>, where \<open>sync_products\<close>
  passes the reading less 24 hours.
\<close>

theorem inventory_and_prices_cutoff_without_watermark:
  "phase_modified_since False (st\<lparr>last_sync_time := None\<rparr>) = None
   \<and> fst (products_modified_since env False (st\<lparr>last_sync_time := None\<rparr>)) =
       Some (clock env (clock_reads st) - HOURS_24)
   \<and> phase_modified_since False (st\<lparr>last_sync_time := Some t\<rparr>) = Some t
   \<and> fst (products_modified_since env False (st\<lparr>last_sync_time := Some t\<rparr>)) = Some t
   \<and> phase_modified_since True st = None
   \<and> fst (products_modified_since env True st) = None
   \<and> trace (snd (sync_product_inventory example_env False init_state)) =
       [Remote (MoyskladGetAllProducts True None), Remote (ShopifyGetAllProducts True None)]
   \<and> trace (snd (sync_product_prices example_env False init_state)) =
       [Remote (MoyskladGetAllProducts False None), Remote (ShopifyGetAllProducts False None)]
   \<and> trace (snd (sync_products example_env False init_state)) =
       [Remote (MoyskladGetAllProducts False (Some (1001 - HOURS_24))),
        Remote (ShopifyGetAllProducts False (Some (1001 - HOURS_24))),
        Remote (MoyskladGetAllProducts False None),
        Remote (ShopifyGetAllProducts False None)]"
  by (simp add: phase_modified_since_def products_modified_since_def now_def
        sync_product_inventory_def sync_product_inventory_try_def
        sync_product_prices_def sync_product_prices_try_def
        sync_products_def sync_products_try_def log_and_reraise_def await_def
        moysklad_fetch_def shopify_fetch_def example_env_def init_state_def
        inventory_valid_products_def prices_valid_moysklad_def index_by_def
        sync_product_inventory_loop.simps sync_prices_moysklad_to_shopify_def
        sync_prices_moysklad_to_shopify_loop.simps BATCH_SIZE_def
        gather_def sync_moysklad_to_shopify_def sync_shopify_to_moysklad_def
        sync_moysklad_to_shopify_loop.simps sync_shopify_to_moysklad_loop.simps
        split: prod.splits)

section \<open>An unrecognised price direction\<close>

lemma sync_product_prices_invalid_direction:
  assumes "price_sync_direction env \<noteq> ''moysklad_to_shopify''"
    and "price_sync_direction env \<noteq> ''shopify_to_moysklad''"
  shows "sync_product_prices env full_sync st =
     (let modified_since = phase_modified_since full_sync st;
          c1 = Remote (MoyskladGetAllProducts False modified_since);
          c2 = Remote (ShopifyGetAllProducts False modified_since)
      in case moysklad_get_all_products env (trace st) False modified_since of
           Inl e \<Rightarrow> (Inl e, st\<lparr>trace := trace st @ [c1],
                               logged := logged st @ [PriceSyncError e],
                               clock_reads := Suc (clock_reads st)\<rparr>)
         | Inr moysklad_products \<Rightarrow>
             (case shopify_get_all_products env (trace st @ [c1]) False modified_since of
                Inl e \<Rightarrow> (Inl e, st\<lparr>trace := trace st @ [c1, c2],
                                    logged := logged st @ [PriceSyncError e],
                                    clock_reads := Suc (clock_reads st)\<rparr>)
              | Inr shopify_products \<Rightarrow>
                  (Inr (), st\<lparr>trace := trace st @ [c1, c2],
                              logged := logged st @
                                [InvalidPriceSyncDirection (price_sync_direction env)],
                              clock_reads := Suc (Suc (clock_reads st))\<rparr>)))"
  using assms
  by (simp add: sync_product_prices_def sync_product_prices_try_def log_and_reraise_def
        await_def now_def moysklad_fetch_def shopify_fetch_def phase_modified_since_def Let_def
        split: sum.splits)

lemma run_complete_sync_phases:
  assumes "sync_products env True (snd (now env st0)) = (Inr (), st2)"
    and "sync_product_inventory env True st2 = (Inr (), st3)"
    and "sync_product_prices env True st3 = (Inr (), st4)"
  shows "run_complete_sync env st0 = (Inr (), snd (now env st4))"
  using assms
  by (cases "now env st0")
     (simp add: run_complete_sync_def run_complete_sync_try_def log_and_reraise_def await_def)

lemma run_incremental_sync_phases:
  assumes "sync_products env False (snd (now env st0)) = (Inr (), st2)"
    and "sync_product_inventory env False st2 = (Inr (), st3)"
    and "sync_product_prices env False st3 = (Inr (), st4)"
  shows "run_incremental_sync env st0 = (Inr (), snd (now env st4))"
  using assms
  by (cases "now env st0")
     (simp add: run_incremental_sync_def run_incremental_sync_try_def log_and_reraise_def
        await_def)

text \<open>
  Claim C9. Let \<open>price_sync_direction\<close> be neither of the two recognised values. Then
  \<open>sync_product_prices\<close> adds to the trace nothing but its two catalog fetches (one, when
  the first fails): it issues no price update. When both fetches succeed it returns
  without raising and logs the invalid direction. In a complete and in an incremental
  run whose product and inventory phases have returned, and whose price phase can fetch
  the catalogs, the run returns without raising, with the invalid direction logged after
  whatever the earlier phases logged.
\<close>

theorem invalid_price_direction_skips_price_phase:
  "price_sync_direction env \<noteq> ''moysklad_to_shopify''
   \<and> price_sync_direction env \<noteq> ''shopify_to_moysklad'' \<longrightarrow>
   (let modified_since = phase_modified_since full_sync st;
        c1 = Remote (MoyskladGetAllProducts False modified_since);
        c2 = Remote (ShopifyGetAllProducts False modified_since);
        r = sync_product_prices env full_sync st
    in (trace (snd r) = trace st @ [c1] \<or> trace (snd r) = trace st @ [c1, c2])
       \<and> (\<forall>ms sh.
             moysklad_get_all_products env (trace st) False modified_since = Inr ms
             \<and> shopify_get_all_products env (trace st @ [c1]) False modified_since = Inr sh
             \<longrightarrow> fst r = Inr ()
                 \<and> logged (snd r) =
                     logged st @ [InvalidPriceSyncDirection (price_sync_direction env)]))
   \<and> (\<forall>st2 st3 ms sh.
         sync_products env True (snd (now env st)) = (Inr (), st2)
         \<and> sync_product_inventory env True st2 = (Inr (), st3)
         \<and> moysklad_get_all_products env (trace st3) False None = Inr ms
         \<and> shopify_get_all_products env
               (trace st3 @ [Remote (MoyskladGetAllProducts False None)]) False None = Inr sh
         \<longrightarrow> fst (run_complete_sync env st) = Inr ()
             \<and> logged (snd (run_complete_sync env st)) =
                 logged st3 @ [InvalidPriceSyncDirection (price_sync_direction env)])
   \<and> (\<forall>st2 st3 ms sh.
         sync_products env False (snd (now env st)) = (Inr (), st2)
         \<and> sync_product_inventory env False st2 = (Inr (), st3)
         \<and> moysklad_get_all_products env (trace st3) False (last_sync_time st3) = Inr ms
         \<and> shopify_get_all_products env
               (trace st3 @ [Remote (MoyskladGetAllProducts False (last_sync_time st3))])
               False (last_sync_time st3) = Inr sh
         \<longrightarrow> fst (run_incremental_sync env st) = Inr ()
             \<and> logged (snd (run_incremental_sync env st)) =
                 logged st3 @ [InvalidPriceSyncDirection (price_sync_direction env)])"
proof (intro impI conjI allI; (elim conjE)?)
  assume d: "price_sync_direction env \<noteq> ''moysklad_to_shopify''"
    "price_sync_direction env \<noteq> ''shopify_to_moysklad''"
  note p = sync_product_prices_invalid_direction [OF d]
  show "let modified_since = phase_modified_since full_sync st;
            c1 = Remote (MoyskladGetAllProducts False modified_since);
            c2 = Remote (ShopifyGetAllProducts False modified_since);
            r = sync_product_prices env full_sync st
        in (trace (snd r) = trace st @ [c1] \<or> trace (snd r) = trace st @ [c1, c2])
           \<and> (\<forall>ms sh.
                 moysklad_get_all_products env (trace st) False modified_since = Inr ms
                 \<and> shopify_get_all_products env (trace st @ [c1]) False modified_since = Inr sh
                 \<longrightarrow> fst r = Inr ()
                     \<and> logged (snd r) =
                         logged st @ [InvalidPriceSyncDirection (price_sync_direction env)])"
    by (simp add: p Let_def split: sum.splits)
next
  fix st2 st3 ms sh
  assume d: "price_sync_direction env \<noteq> ''moysklad_to_shopify''"
    "price_sync_direction env \<noteq> ''shopify_to_moysklad''"
  assume a: "sync_products env True (snd (now env st)) = (Inr (), st2)"
    "sync_product_inventory env True st2 = (Inr (), st3)"
    "moysklad_get_all_products env (trace st3) False None = Inr ms"
    "shopify_get_all_products env
       (trace st3 @ [Remote (MoyskladGetAllProducts False None)]) False None = Inr sh"
  obtain st4 where p: "sync_product_prices env True st3 = (Inr (), st4)"
    "logged st4 = logged st3 @ [InvalidPriceSyncDirection (price_sync_direction env)]"
    by (simp add: sync_product_prices_invalid_direction [OF d] Let_def
          phase_modified_since_def a)
  show "fst (run_complete_sync env st) = Inr ()"
    "logged (snd (run_complete_sync env st)) =
       logged st3 @ [InvalidPriceSyncDirection (price_sync_direction env)]"
    by (simp_all add: run_complete_sync_phases [OF a(1,2) p(1)] p(2) now_def)
next
  fix st2 st3 ms sh
  assume d: "price_sync_direction env \<noteq> ''moysklad_to_shopify''"
    "price_sync_direction env \<noteq> ''shopify_to_moysklad''"
  assume a: "sync_products env False (snd (now env st)) = (Inr (), st2)"
    "sync_product_inventory env False st2 = (Inr (), st3)"
    "moysklad_get_all_products env (trace st3) False (last_sync_time st3) = Inr ms"
    "shopify_get_all_products env
       (trace st3 @ [Remote (MoyskladGetAllProducts False (last_sync_time st3))])
       False (last_sync_time st3) = Inr sh"
  have ms: "phase_modified_since False st3 = last_sync_time st3"
    by (simp add: phase_modified_since_def)
  obtain st4 where p: "sync_product_prices env False st3 = (Inr (), st4)"
    "logged st4 = logged st3 @ [InvalidPriceSyncDirection (price_sync_direction env)]"
    by (simp add: sync_product_prices_invalid_direction [OF d] Let_def ms a)
  show "fst (run_incremental_sync env st) = Inr ()"
    "logged (snd (run_incremental_sync env st)) =
       logged st3 @ [InvalidPriceSyncDirection (price_sync_direction env)]"
    by (simp_all add: run_incremental_sync_phases [OF a(1,2) p(1)] p(2) now_def)
qed

theorem invalid_price_direction_skips_price_phase_witness:
  "price_sync_direction (example_env\<lparr>price_sync_direction := ''both''\<rparr>) \<noteq> ''moysklad_to_shopify''
   \<and> price_sync_direction (example_env\<lparr>price_sync_direction := ''both''\<rparr>) \<noteq> ''shopify_to_moysklad''
   \<and> sync_product_prices (example_env\<lparr>price_sync_direction := ''both''\<rparr>) True init_state =
       (Inr (),
        \<lparr>last_sync_time = None,
         trace = [Remote (MoyskladGetAllProducts False None),
                  Remote (ShopifyGetAllProducts False None)],
         logged = [InvalidPriceSyncDirection ''both''],
         clock_reads = 2\<rparr>)
   \<and> run_complete_sync (example_env\<lparr>price_sync_direction := ''both''\<rparr>) init_state =
       (Inr (),
        \<lparr>last_sync_time = Some 1001,
         trace = [Remote (MoyskladGetAllProducts False None),
                  Remote (ShopifyGetAllProducts False None),
                  Remote (MoyskladGetAllProducts True None),
                  Remote (ShopifyGetAllProducts True None),
                  Remote (MoyskladGetAllProducts False None),
                  Remote (ShopifyGetAllProducts False None)],
         logged = [InvalidPriceSyncDirection ''both''],
         clock_reads = 8\<rparr>)"
  using invalid_price_direction_skips_price_phase
          [where env = "example_env\<lparr>price_sync_direction := ''both''\<rparr>"
             and full_sync = True and st = init_state]
  by (simp add: run_complete_sync_def run_complete_sync_try_def
        phase_modified_since_def products_modified_since_def now_def
        sync_product_inventory_def sync_product_inventory_try_def
        sync_product_prices_def sync_product_prices_try_def
        sync_products_def sync_products_try_def log_and_reraise_def await_def
        moysklad_fetch_def shopify_fetch_def example_env_def init_state_def
        inventory_valid_products_def index_by_def
        sync_product_inventory_loop.simps
        gather_def sync_moysklad_to_shopify_def sync_shopify_to_moysklad_def
        sync_moysklad_to_shopify_loop.simps sync_shopify_to_moysklad_loop.simps)

section \<open>Price updates\<close>

lemma issues_update_shopify_price:
  "issues (ShopifyUpdatePrice product_id variant_id price)
          (update_shopify_price env product_id variant_id price)"
  unfolding update_shopify_price_def
  by (rule issuesI [where respond = "\<lambda>t. shopify_update_price env t product_id variant_id price"])
     (simp add: update_shopify_price_attempt_def)

lemma issues_update_moysklad_price:
  "issues (MoyskladUpdatePrice product_id price) (update_moysklad_price env product_id price)"
  unfolding update_moysklad_price_def
  by (rule issuesI [where respond = "\<lambda>t. moysklad_update_price env t product_id price"])
     (simp add: update_moysklad_price_attempt_def)

lemma moysklad_price_tasks_issue:
  "list_all2 issues (moysklad_price_calls pairs) (moysklad_price_tasks env pairs)"
  by (induction pairs rule: moysklad_price_calls.induct)
     (simp_all add: issues_update_shopify_price)

lemma shopify_price_tasks_issue:
  "list_all2 issues (shopify_price_calls env pairs) (shopify_price_tasks env pairs)"
  by (induction env pairs rule: shopify_price_calls.induct)
     (simp_all add: issues_update_moysklad_price Let_def)

lemma moysklad_price_calls_append:
  "moysklad_price_calls (xs @ ys) = moysklad_price_calls xs @ moysklad_price_calls ys"
  by (induction xs rule: moysklad_price_calls.induct) auto

lemma shopify_price_calls_append:
  "shopify_price_calls env (xs @ ys) = shopify_price_calls env xs @ shopify_price_calls env ys"
  by (induction env xs rule: shopify_price_calls.induct) auto

lemma sync_prices_moysklad_to_shopify_loop_calls:
  "0 < batch_size \<Longrightarrow>
   \<exists>evs. fst (sync_prices_moysklad_to_shopify_loop env i valid_products batch_size st) = Inr ()
        \<and> trace (snd (sync_prices_moysklad_to_shopify_loop env i valid_products batch_size st)) =
            trace st @ evs
        \<and> set (remote_calls evs) = set (moysklad_price_calls (drop i valid_products))"
proof (induction env i valid_products batch_size st
       rule: sync_prices_moysklad_to_shopify_loop.induct)
  case (1 env i valid_products batch_size st)
  show ?case
  proof (cases "i < length valid_products")
    case False
    then have "sync_prices_moysklad_to_shopify_loop env i valid_products batch_size st =
               (Inr (), st)"
      using "1.prems" by (subst sync_prices_moysklad_to_shopify_loop.simps) simp
    then show ?thesis using False by simp
  next
    case True
    let ?batch = "take batch_size (drop i valid_products)"
    define st1 where "st1 = st\<lparr>trace := snd (run_all (moysklad_price_tasks env ?batch) (trace st)),
        logged := logged st @
          failures 0 (fst (run_all (moysklad_price_tasks env ?batch) (trace st)))\<rparr>"
    have ex: "execute_if_any (moysklad_price_tasks env ?batch) st = (Inr (), st1)"
      by (simp add: execute_if_any_eq st1_def)
    obtain e1 where e1: "trace st1 = trace st @ e1"
      "set (remote_calls e1) = set (moysklad_price_calls ?batch)"
      using run_all_issues [OF moysklad_price_tasks_issue, where pairs1 = ?batch and env1 = env and tr = "trace st"]
      by (auto simp: st1_def)
    have step: "sync_prices_moysklad_to_shopify_loop env i valid_products batch_size st =
                sync_prices_moysklad_to_shopify_loop env (i + batch_size) valid_products
                  batch_size (sleep INTER_BATCH_DELAY st1)"
      using "1.prems" True
      by (subst sync_prices_moysklad_to_shopify_loop.simps) (simp add: ex)
    from "1.IH" [OF _ True ex [symmetric] refl "1.prems"] "1.prems"
    obtain e2 where e2:
      "fst (sync_prices_moysklad_to_shopify_loop env (i + batch_size) valid_products
              batch_size (sleep INTER_BATCH_DELAY st1)) = Inr ()"
      "trace (snd (sync_prices_moysklad_to_shopify_loop env (i + batch_size) valid_products
              batch_size (sleep INTER_BATCH_DELAY st1))) =
         trace (sleep INTER_BATCH_DELAY st1) @ e2"
      "set (remote_calls e2) = set (moysklad_price_calls (drop (i + batch_size) valid_products))"
      by auto
    have "moysklad_price_calls (drop i valid_products) =
          moysklad_price_calls ?batch @
          moysklad_price_calls (drop (i + batch_size) valid_products)"
      using take_drop_split [of i valid_products batch_size] moysklad_price_calls_append
      by metis
    then have "set (remote_calls (e1 @ [Sleep INTER_BATCH_DELAY] @ e2)) =
          set (moysklad_price_calls (drop i valid_products))"
      by (simp add: remote_calls_append e1(2) e2(3))
    moreover have "trace (snd (sync_prices_moysklad_to_shopify_loop env i valid_products
                     batch_size st)) = trace st @ (e1 @ [Sleep INTER_BATCH_DELAY] @ e2)"
      unfolding step e2(2) by (simp add: sleep_def e1(1))
    ultimately show ?thesis
      using e2(1) step by metis
  qed
qed

lemma sync_prices_shopify_to_moysklad_loop_calls:
  "0 < batch_size \<Longrightarrow>
   \<exists>evs. fst (sync_prices_shopify_to_moysklad_loop env i valid_products batch_size st) = Inr ()
        \<and> trace (snd (sync_prices_shopify_to_moysklad_loop env i valid_products batch_size st)) =
            trace st @ evs
        \<and> set (remote_calls evs) = set (shopify_price_calls env (drop i valid_products))"
proof (induction env i valid_products batch_size st
       rule: sync_prices_shopify_to_moysklad_loop.induct)
  case (1 env i valid_products batch_size st)
  show ?case
  proof (cases "i < length valid_products")
    case False
    then have "sync_prices_shopify_to_moysklad_loop env i valid_products batch_size st =
               (Inr (), st)"
      using "1.prems" by (subst sync_prices_shopify_to_moysklad_loop.simps) simp
    then show ?thesis using False by simp
  next
    case True
    let ?batch = "take batch_size (drop i valid_products)"
    define st1 where "st1 = st\<lparr>trace := snd (run_all (shopify_price_tasks env ?batch) (trace st)),
        logged := logged st @
          failures 0 (fst (run_all (shopify_price_tasks env ?batch) (trace st)))\<rparr>"
    have ex: "execute_if_any (shopify_price_tasks env ?batch) st = (Inr (), st1)"
      by (simp add: execute_if_any_eq st1_def)
    obtain e1 where e1: "trace st1 = trace st @ e1"
      "set (remote_calls e1) = set (shopify_price_calls env ?batch)"
      using run_all_issues [OF shopify_price_tasks_issue, where pairs1 = ?batch and env1 = env and tr = "trace st"]
      by (auto simp: st1_def)
    have step: "sync_prices_shopify_to_moysklad_loop env i valid_products batch_size st =
                sync_prices_shopify_to_moysklad_loop env (i + batch_size) valid_products
                  batch_size (sleep INTER_BATCH_DELAY st1)"
      using "1.prems" True
      by (subst sync_prices_shopify_to_moysklad_loop.simps) (simp add: ex)
    from "1.IH" [OF _ True ex [symmetric] refl "1.prems"] "1.prems"
    obtain e2 where e2:
      "fst (sync_prices_shopify_to_moysklad_loop env (i + batch_size) valid_products
              batch_size (sleep INTER_BATCH_DELAY st1)) = Inr ()"
      "trace (snd (sync_prices_shopify_to_moysklad_loop env (i + batch_size) valid_products
              batch_size (sleep INTER_BATCH_DELAY st1))) =
         trace (sleep INTER_BATCH_DELAY st1) @ e2"
      "set (remote_calls e2) = set (shopify_price_calls env (drop (i + batch_size) valid_products))"
      by auto
    have "shopify_price_calls env (drop i valid_products) =
          shopify_price_calls env ?batch @
          shopify_price_calls env (drop (i + batch_size) valid_products)"
      using take_drop_split [of i valid_products batch_size] shopify_price_calls_append [of env]
      by metis
    then have "set (remote_calls (e1 @ [Sleep INTER_BATCH_DELAY] @ e2)) =
          set (shopify_price_calls env (drop i valid_products))"
      by (simp add: remote_calls_append e1(2) e2(3))
    moreover have "trace (snd (sync_prices_shopify_to_moysklad_loop env i valid_products
                     batch_size st)) = trace st @ (e1 @ [Sleep INTER_BATCH_DELAY] @ e2)"
      unfolding step e2(2) by (simp add: sleep_def e1(1))
    ultimately show ?thesis
      using e2(1) step by metis
  qed
qed

lemma set_moysklad_price_calls:
  "set (moysklad_price_calls pairs) =
     {ShopifyUpdatePrice (sh_id sh) (sh_variant_id sh) (the (ms_price ms)) | ms sh.
        (ms, sh) \<in> set pairs \<and> sh_price sh \<noteq> ms_price ms}"
  by (induction pairs rule: moysklad_price_calls.induct) auto

lemma set_shopify_price_calls:
  "set (shopify_price_calls env pairs) =
     {MoyskladUpdatePrice (ms_id ms) (price_to_moysklad_format env (the (sh_price sh))) | sh ms.
        (sh, ms) \<in> set pairs
        \<and> ms_price ms \<noteq> Some (price_to_moysklad_format env (the (sh_price sh)))}"
  by (induction env pairs rule: shopify_price_calls.induct) auto

lemma in_prices_valid_moysklad:
  "(ms, sh) \<in> set (prices_valid_moysklad products idx) \<longleftrightarrow>
     ms \<in> set products \<and> truthy (ms_code ms) \<and> ms_price ms \<noteq> None
     \<and> dict_get idx (ms_code ms) = Some sh"
  (is "?L \<longleftrightarrow> ?R")
proof
  assume ?L
  then obtain x where "x \<in> set products"
    "(if truthy (ms_code x) \<and> ms_price x \<noteq> None then
        (case dict_get idx (ms_code x) of None \<Rightarrow> None | Some t \<Rightarrow> Some (x, t))
      else None) = Some (ms, sh)"
    unfolding prices_valid_moysklad_def set_map_filter by blast
  then show ?R
    by (cases "dict_get idx (ms_code x)") (simp_all split: if_splits)
next
  assume r: ?R
  then have "(if truthy (ms_code ms) \<and> ms_price ms \<noteq> None then
        (case dict_get idx (ms_code ms) of None \<Rightarrow> None | Some t \<Rightarrow> Some (ms, t))
      else None) = Some (ms, sh)"
    by simp
  with r show ?L
    unfolding prices_valid_moysklad_def set_map_filter by blast
qed

lemma in_prices_valid_shopify:
  "(sh, ms) \<in> set (prices_valid_shopify products idx) \<longleftrightarrow>
     sh \<in> set products \<and> truthy (sh_sku sh) \<and> sh_price sh \<noteq> None
     \<and> dict_get idx (sh_sku sh) = Some ms"
  (is "?L \<longleftrightarrow> ?R")
proof
  assume ?L
  then obtain x where "x \<in> set products"
    "(if truthy (sh_sku x) \<and> sh_price x \<noteq> None then
        (case dict_get idx (sh_sku x) of None \<Rightarrow> None | Some t \<Rightarrow> Some (x, t))
      else None) = Some (sh, ms)"
    unfolding prices_valid_shopify_def set_map_filter by blast
  then show ?R
    by (cases "dict_get idx (sh_sku x)") (simp_all split: if_splits)
next
  assume r: ?R
  then have "(if truthy (sh_sku sh) \<and> sh_price sh \<noteq> None then
        (case dict_get idx (sh_sku sh) of None \<Rightarrow> None | Some t \<Rightarrow> Some (sh, t))
      else None) = Some (sh, ms)"
    by simp
  with r show ?L
    unfolding prices_valid_shopify_def set_map_filter by blast
qed

lemma valid_moysklad_price_calls:
  "set (moysklad_price_calls (prices_valid_moysklad products idx)) =
     {ShopifyUpdatePrice (sh_id sh) (sh_variant_id sh) p | ms sh p.
        ms \<in> set products \<and> truthy (ms_code ms) \<and> dict_get idx (ms_code ms) = Some sh
        \<and> ms_price ms = Some p \<and> sh_price sh \<noteq> Some p}"
  (is "?L = ?R")
proof (intro set_eqI iffI)
  fix c
  assume "c \<in> ?L"
  then obtain ms sh where c: "c = ShopifyUpdatePrice (sh_id sh) (sh_variant_id sh) (the (ms_price ms))"
    "(ms, sh) \<in> set (prices_valid_moysklad products idx)" "sh_price sh \<noteq> ms_price ms"
    unfolding set_moysklad_price_calls by blast
  from c(2) obtain p where p: "ms_price ms = Some p" "ms \<in> set products" "truthy (ms_code ms)"
    "dict_get idx (ms_code ms) = Some sh"
    unfolding in_prices_valid_moysklad by blast
  have "c = ShopifyUpdatePrice (sh_id sh) (sh_variant_id sh) p" "sh_price sh \<noteq> Some p"
    using c(1,3) p(1) by simp_all
  with p show "c \<in> ?R" by blast
next
  fix c
  assume "c \<in> ?R"
  then obtain ms sh p where c: "c = ShopifyUpdatePrice (sh_id sh) (sh_variant_id sh) p"
    "ms \<in> set products" "truthy (ms_code ms)" "dict_get idx (ms_code ms) = Some sh"
    "ms_price ms = Some p" "sh_price sh \<noteq> Some p"
    by blast
  have 1: "(ms, sh) \<in> set (prices_valid_moysklad products idx)"
    unfolding in_prices_valid_moysklad using c by simp
  have 2: "c = ShopifyUpdatePrice (sh_id sh) (sh_variant_id sh) (the (ms_price ms))"
    "sh_price sh \<noteq> ms_price ms"
    using c by simp_all
  show "c \<in> ?L"
    unfolding set_moysklad_price_calls using 1 2 by blast
qed

lemma valid_shopify_price_calls:
  "set (shopify_price_calls env (prices_valid_shopify products idx)) =
     {MoyskladUpdatePrice (ms_id ms) (price_to_moysklad_format env p) | sh ms p.
        sh \<in> set products \<and> truthy (sh_sku sh) \<and> dict_get idx (sh_sku sh) = Some ms
        \<and> sh_price sh = Some p \<and> ms_price ms \<noteq> Some (price_to_moysklad_format env p)}"
  (is "?L = ?R")
proof (intro set_eqI iffI)
  fix c
  assume "c \<in> ?L"
  then obtain sh ms where c:
    "c = MoyskladUpdatePrice (ms_id ms) (price_to_moysklad_format env (the (sh_price sh)))"
    "(sh, ms) \<in> set (prices_valid_shopify products idx)"
    "ms_price ms \<noteq> Some (price_to_moysklad_format env (the (sh_price sh)))"
    unfolding set_shopify_price_calls by blast
  from c(2) obtain p where p: "sh_price sh = Some p" "sh \<in> set products" "truthy (sh_sku sh)"
    "dict_get idx (sh_sku sh) = Some ms"
    unfolding in_prices_valid_shopify by blast
  have "c = MoyskladUpdatePrice (ms_id ms) (price_to_moysklad_format env p)"
    "ms_price ms \<noteq> Some (price_to_moysklad_format env p)"
    using c(1,3) p(1) by simp_all
  with p show "c \<in> ?R" by blast
next
  fix c
  assume "c \<in> ?R"
  then obtain sh ms p where c: "c = MoyskladUpdatePrice (ms_id ms) (price_to_moysklad_format env p)"
    "sh \<in> set products" "truthy (sh_sku sh)" "dict_get idx (sh_sku sh) = Some ms"
    "sh_price sh = Some p" "ms_price ms \<noteq> Some (price_to_moysklad_format env p)"
    by blast
  have 1: "(sh, ms) \<in> set (prices_valid_shopify products idx)"
    unfolding in_prices_valid_shopify using c by simp
  have 2: "c = MoyskladUpdatePrice (ms_id ms) (price_to_moysklad_format env (the (sh_price sh)))"
    "ms_price ms \<noteq> Some (price_to_moysklad_format env (the (sh_price sh)))"
    using c by simp_all
  show "c \<in> ?L"
    unfolding set_shopify_price_calls using 1 2 by blast
qed

lemma moysklad_to_shopify_price_calls:
  assumes "0 < batch_size"
  shows "set (remote_calls (drop (length (trace st))
            (trace (snd (sync_prices_moysklad_to_shopify env moysklad_products shopify_by_sku
                           batch_size st))))) =
         {ShopifyUpdatePrice (sh_id sh) (sh_variant_id sh) p | ms sh p.
            ms \<in> set moysklad_products \<and> truthy (ms_code ms)
            \<and> dict_get shopify_by_sku (ms_code ms) = Some sh
            \<and> ms_price ms = Some p \<and> sh_price sh \<noteq> Some p}"
proof -
  obtain evs where
    "trace (snd (sync_prices_moysklad_to_shopify env moysklad_products shopify_by_sku
                   batch_size st)) = trace st @ evs"
    "set (remote_calls evs) =
       set (moysklad_price_calls (prices_valid_moysklad moysklad_products shopify_by_sku))"
    using sync_prices_moysklad_to_shopify_loop_calls [OF assms, of env 0
            "prices_valid_moysklad moysklad_products shopify_by_sku" st]
    by (auto simp: sync_prices_moysklad_to_shopify_def)
  then show ?thesis
    by (simp add: valid_moysklad_price_calls)
qed

lemma shopify_to_moysklad_price_calls:
  assumes "0 < batch_size"
  shows "set (remote_calls (drop (length (trace st))
            (trace (snd (sync_prices_shopify_to_moysklad env shopify_products moysklad_by_code
                           batch_size st))))) =
         {MoyskladUpdatePrice (ms_id ms) (price_to_moysklad_format env p) | sh ms p.
            sh \<in> set shopify_products \<and> truthy (sh_sku sh)
            \<and> dict_get moysklad_by_code (sh_sku sh) = Some ms
            \<and> sh_price sh = Some p \<and> ms_price ms \<noteq> Some (price_to_moysklad_format env p)}"
proof -
  obtain evs where
    "trace (snd (sync_prices_shopify_to_moysklad env shopify_products moysklad_by_code
                   batch_size st)) = trace st @ evs"
    "set (remote_calls evs) =
       set (shopify_price_calls env (prices_valid_shopify shopify_products moysklad_by_code))"
    using sync_prices_shopify_to_moysklad_loop_calls [OF assms, of env 0
            "prices_valid_shopify shopify_products moysklad_by_code" st]
    by (auto simp: sync_prices_shopify_to_moysklad_def)
  then show ?thesis
    by (simp add: valid_shopify_price_calls)
qed

text \<open>
  Claim C3. In price sync an update call is issued exactly when the translated price
  differs from the price on the receiving side, compared after unit conversion; with
  direction \<^verbatim>\<open>moysklad_to_shopify\<close> and a Moysklad price equal after conversion to
  Shopify's price, no update call is issued.

  The Shopify to Moysklad direction does this: it converts Shopify's price with
  \<^verbatim>\<open>price_to_moysklad_format\<close> and compares the result with Moysklad's price, so a
  pair whose prices agree after conversion gets no task. The Moysklad to Shopify
  direction compares the two prices as they are stored,
  \<^verbatim>\<open>shopify_product.price != ms_product.price\<close>, with no conversion: for the same
  pair it issues an update whenever the conversion changes the number, and the price it
  sends to Shopify is the one in Moysklad's unit. On the example platforms Shopify holds
  19.5 and Moysklad 1950, equal after conversion: the Shopify to Moysklad direction
  sends nothing, the Moysklad to Shopify direction sends \<open>ShopifyUpdatePrice\<close> with 1950.
\<close>

theorem moysklad_to_shopify_compares_unconverted_prices:
  "shopify_price_tasks env
     [(sh\<lparr>sh_price := Some p\<rparr>, ms\<lparr>ms_price := Some (price_to_moysklad_format env p)\<rparr>)] = []
   \<and> moysklad_price_tasks env
       [(ms\<lparr>ms_price := Some (price_to_moysklad_format env p)\<rparr>, sh\<lparr>sh_price := Some p\<rparr>)] =
       (if price_to_moysklad_format env p = p then []
        else [update_shopify_price env (sh_id sh) (sh_variant_id sh)
                (price_to_moysklad_format env p)])
   \<and> sh_price example_sh = Some (39 / 2)
   \<and> ms_price example_ms = Some (price_to_moysklad_format example_env (39 / 2))
   \<and> dict_get (index_by sh_sku [example_sh]) (ms_code example_ms) = Some example_sh
   \<and> dict_get (index_by ms_code [example_ms]) (sh_sku example_sh) = Some example_ms
   \<and> sync_prices_shopify_to_moysklad example_env [example_sh]
        (index_by ms_code [example_ms]) BATCH_SIZE init_state =
       (Inr (), init_state\<lparr>trace := [Sleep INTER_BATCH_DELAY]\<rparr>)
   \<and> sync_prices_moysklad_to_shopify example_env [example_ms]
        (index_by sh_sku [example_sh]) BATCH_SIZE init_state =
       (Inr (), init_state\<lparr>trace := [Remote (ShopifyUpdatePrice ''gid-9'' ''v-9'' 1950),
                                     Sleep INTER_BATCH_DELAY]\<rparr>)"
proof (intro conjI)
  show "shopify_price_tasks env
     [(sh\<lparr>sh_price := Some p\<rparr>, ms\<lparr>ms_price := Some (price_to_moysklad_format env p)\<rparr>)] = []"
    by simp
  show "moysklad_price_tasks env
       [(ms\<lparr>ms_price := Some (price_to_moysklad_format env p)\<rparr>, sh\<lparr>sh_price := Some p\<rparr>)] =
       (if price_to_moysklad_format env p = p then []
        else [update_shopify_price env (sh_id sh) (sh_variant_id sh)
                (price_to_moysklad_format env p)])"
    by auto
  show "sh_price example_sh = Some (39 / 2)"
    by (simp add: example_sh_def)
  show "ms_price example_ms = Some (price_to_moysklad_format example_env (39 / 2))"
    by (simp add: example_ms_def example_env_def)
  show "dict_get (index_by sh_sku [example_sh]) (ms_code example_ms) = Some example_sh"
    by (simp add: index_by_def dict_get_def truthy_def example_ms_def example_sh_def)
  show "dict_get (index_by ms_code [example_ms]) (sh_sku example_sh) = Some example_ms"
    by (simp add: index_by_def dict_get_def truthy_def example_ms_def example_sh_def)
  show "sync_prices_shopify_to_moysklad example_env [example_sh]
        (index_by ms_code [example_ms]) BATCH_SIZE init_state =
       (Inr (), init_state\<lparr>trace := [Sleep INTER_BATCH_DELAY]\<rparr>)"
    by (simp add: sync_prices_shopify_to_moysklad_def prices_valid_shopify_def
          index_by_def dict_get_def truthy_def example_ms_def example_sh_def
          sync_prices_shopify_to_moysklad_loop.simps
          BATCH_SIZE_def execute_if_any_def example_env_def init_state_def sleep_def Let_def
          del: not_None_eq)
  show "sync_prices_moysklad_to_shopify example_env [example_ms]
        (index_by sh_sku [example_sh]) BATCH_SIZE init_state =
       (Inr (), init_state\<lparr>trace := [Remote (ShopifyUpdatePrice ''gid-9'' ''v-9'' 1950),
                                     Sleep INTER_BATCH_DELAY]\<rparr>)"
    by (simp add: sync_prices_moysklad_to_shopify_def prices_valid_moysklad_def
          index_by_def dict_get_def truthy_def example_ms_def example_sh_def
          sync_prices_moysklad_to_shopify_loop.simps
          BATCH_SIZE_def execute_if_any_def execute_tasks_with_limited_concurrency_def
          execute_loop.simps gather_def MAX_CONCURRENT_TASKS_def
          update_shopify_price_def retry_eq' update_shopify_price_attempt_def
          example_env_def init_state_def sleep_def Let_def del: not_None_eq)
qed

end
